theory Spec2Isabelle
  imports Complex_Main "HOL-Library.Sublist" "HOL-Library.Char_ord" "HOL-Library.List_Lexorder"
begin

section \<open>Python and SQLite primitives used by the job-market analyzer\<close>

text \<open>
  Strings are lists of characters. \<open>lower\<close> is \<^verbatim>\<open>str.lower()\<close> on ASCII text (the letters
  A to Z are mapped to a to z, every other character is kept); SQLite's \<^verbatim>\<open>LIKE\<close> folds
  case in exactly this way. \<open>contains sub s\<close> is Python's \<^verbatim>\<open>sub in s\<close> on strings.
\<close>

definition lower_char :: "char \<Rightarrow> char" where
  "lower_char c =
     (let n = (of_char c :: nat) in if 65 \<le> n \<and> n \<le> 90 then char_of (n + 32) else c)"

definition lower :: "string \<Rightarrow> string" where
  "lower s = map lower_char s"

definition contains :: "string \<Rightarrow> string \<Rightarrow> bool" where
  "contains sub s = sublist sub s"

text \<open>
  \<open>like pattern text\<close> is SQLite's \<^verbatim>\<open>text LIKE pattern\<close> (no ESCAPE clause): \<^verbatim>\<open>%\<close> matches
  any run of characters, \<^verbatim>\<open>_\<close> matches any one character, every other character matches
  itself up to ASCII case.
\<close>

fun like :: "string \<Rightarrow> string \<Rightarrow> bool" where
  "like [] [] = True"
| "like [] (c # cs) = False"
| "like (p # ps) [] = (p = CHR ''%'' \<and> like ps [])"
| "like (p # ps) (c # cs) =
     (if p = CHR ''%'' then like ps (c # cs) \<or> like (p # ps) cs
      else (p = CHR ''_'' \<or> lower_char p = lower_char c) \<and> like ps cs)"

text \<open>The pattern \<^verbatim>\<open>f"%{text}%"\<close> that \<^verbatim>\<open>search_jobs\<close> binds to a \<^verbatim>\<open>LIKE ?\<close> condition.\<close>

definition like_anywhere :: "string \<Rightarrow> string \<Rightarrow> bool" where
  "like_anywhere text column = like (CHR ''%'' # text @ [CHR ''%'']) column"

definition has_wildcard :: "string \<Rightarrow> bool" where
  "has_wildcard text = (CHR ''%'' \<in> set text \<or> CHR ''_'' \<in> set text)"

text \<open>
  Numbers: salaries, distances and percentages are Python floats; they are modelled by
  the reals. \<^verbatim>\<open>round(x, ndigits)\<close> rounds to the nearest multiple of \<open>10^-ndigits\<close>, ties to
  the even neighbour.
\<close>

definition round_half_even :: "real \<Rightarrow> int" where
  "round_half_even x =
     (let f = \<lfloor>x\<rfloor>; d = x - of_int f in
      if d < 1 / 2 then f else if 1 / 2 < d then f + 1 else if even f then f else f + 1)"

definition py_round :: "nat \<Rightarrow> real \<Rightarrow> real" where
  "py_round ndigits x = of_int (round_half_even (x * 10 ^ ndigits)) / 10 ^ ndigits"

text \<open>Python's slice \<^verbatim>\<open>xs[:n]\<close>: a negative \<open>n\<close> counts from the end.\<close>

definition slice_to :: "int \<Rightarrow> 'a list \<Rightarrow> 'a list" where
  "slice_to n xs = (if 0 \<le> n then take (nat n) xs else take (length xs - nat (- n)) xs)"

datatype py_error = TypeError | ValueError

section \<open>The data model: \<^verbatim>\<open>JobPosting\<close> (src/data\_collection/models.py)\<close>

text \<open>
  A \<^verbatim>\<open>datetime\<close> is identified by its ISO-8601 text, so that \<^verbatim>\<open>isoformat\<close> and
  \<^verbatim>\<open>fromisoformat\<close> are inverse to each other, as in Python.
\<close>

datatype datetime = Datetime string

definition isoformat :: "datetime \<Rightarrow> string" where
  "isoformat d = (case d of Datetime s \<Rightarrow> s)"

definition fromisoformat :: "string \<Rightarrow> datetime" where
  "fromisoformat s = Datetime s"

record JobPosting =
  title :: string
  company :: string
  location :: string
  description :: string
  salary_min :: "real option"
  salary_max :: "real option"
  salary_currency :: string
  job_type :: string
  experience_level :: string
  remote :: bool
  skills :: "string list"
  source :: string
  url :: "string option"
  posted_date :: "datetime option"
  scraped_at :: datetime
  job_id :: string

text \<open>
  \<^verbatim>\<open>__post_init__\<close> runs at every construction and overwrites \<^verbatim>\<open>id\<close> with the first 16
  hex digits of the MD5 of title, company, location and a fresh \<^verbatim>\<open>uuid.uuid4()\<close>. The digest
  function and the random draw are parameters: \<open>md5_hexdigest\<close> and \<open>uuid\<close>.
\<close>

definition post_init :: "(string \<Rightarrow> string) \<Rightarrow> string \<Rightarrow> JobPosting \<Rightarrow> JobPosting" where
  "post_init md5_hexdigest uuid job =
     job\<lparr>job_id := take 16 (md5_hexdigest (title job @ company job @ location job @ uuid))\<rparr>"

text \<open>
  The dictionary form of a posting. A date entry is a string or a \<^verbatim>\<open>datetime\<close> object;
  the \<^verbatim>\<open>id\<close> key may be missing.
\<close>

datatype date_value = DateText string | DateObj datetime

record job_dict =
  d_title :: string
  d_company :: string
  d_location :: string
  d_description :: string
  d_salary_min :: "real option"
  d_salary_max :: "real option"
  d_salary_currency :: string
  d_job_type :: string
  d_experience_level :: string
  d_remote :: bool
  d_skills :: "string list"
  d_source :: string
  d_url :: "string option"
  d_posted_date :: "date_value option"
  d_scraped_at :: date_value
  d_id :: "string option"

definition to_dict :: "JobPosting \<Rightarrow> job_dict" where
  "to_dict job =
     \<lparr>d_title = title job, d_company = company job, d_location = location job,
      d_description = description job, d_salary_min = salary_min job,
      d_salary_max = salary_max job, d_salary_currency = salary_currency job,
      d_job_type = job_type job, d_experience_level = experience_level job,
      d_remote = remote job, d_skills = skills job, d_source = source job, d_url = url job,
      d_posted_date = (case posted_date job of None \<Rightarrow> None
                       | Some d \<Rightarrow> Some (DateText (isoformat d))),
      d_scraped_at = DateText (isoformat (scraped_at job)),
      d_id = Some (job_id job)\<rparr>"

definition parse_date :: "date_value \<Rightarrow> datetime" where
  "parse_date v = (case v of DateText s \<Rightarrow> fromisoformat s | DateObj d \<Rightarrow> d)"

text \<open>
  \<^verbatim>\<open>from_dict\<close> pops the \<^verbatim>\<open>id\<close> key and calls the constructor, which starts from the
  default \<^verbatim>\<open>id = ""\<close> and runs \<^verbatim>\<open>__post_init__\<close>.
\<close>

definition from_dict :: "(string \<Rightarrow> string) \<Rightarrow> string \<Rightarrow> job_dict \<Rightarrow> JobPosting" where
  "from_dict md5_hexdigest uuid data =
     post_init md5_hexdigest uuid
       \<lparr>title = d_title data, company = d_company data, location = d_location data,
        description = d_description data, salary_min = d_salary_min data,
        salary_max = d_salary_max data, salary_currency = d_salary_currency data,
        job_type = d_job_type data, experience_level = d_experience_level data,
        remote = d_remote data, skills = d_skills data, source = d_source data,
        url = d_url data, posted_date = map_option parse_date (d_posted_date data),
        scraped_at = parse_date (d_scraped_at data), job_id = []\<rparr>"

section \<open>The relational store: \<^verbatim>\<open>JobDatabase\<close> (src/etl/database.py)\<close>

text \<open>
  Every method of the store opens a connection of its own. That this can fail is
  modelled for \<^verbatim>\<open>insert_job\<close>; the reading methods are described for a connection that
  opens.
\<close>

text \<open>
  A row of table \<^verbatim>\<open>jobs\<close> with the columns \<^verbatim>\<open>insert_job\<close> writes. The \<^verbatim>\<open>skills\<close> column
  holds the text \<^verbatim>\<open>json.dumps(job.skills)\<close>, represented by the list it encodes
  (\<^verbatim>\<open>json.loads\<close> inverts \<^verbatim>\<open>json.dumps\<close> on lists of strings); \<open>None\<close> is SQL NULL. The
  column \<^verbatim>\<open>created_at\<close>, filled by the engine and dropped again by \<^verbatim>\<open>_row_to_job\<close>, is
  left out. Table \<^verbatim>\<open>job_skills\<close> is the list of its \<^verbatim>\<open>(job_id, skill)\<close> pairs in rowid
  order.
\<close>

record job_row =
  r_id :: string
  r_title :: string
  r_company :: string
  r_location :: string
  r_description :: string
  r_salary_min :: "real option"
  r_salary_max :: "real option"
  r_salary_currency :: string
  r_job_type :: string
  r_experience_level :: string
  r_remote :: int
  r_skills :: "string list option"
  r_source :: string
  r_url :: "string option"
  r_posted_date :: "string option"
  r_scraped_at :: string

record database =
  jobs :: "job_row list"
  job_skills :: "(string \<times> string) list"

definition init_db :: database where
  "init_db = \<lparr>jobs = [], job_skills = []\<rparr>"

text \<open>The parameter tuple of the \<^verbatim>\<open>INSERT OR IGNORE INTO jobs\<close> statement.\<close>

definition job_to_row :: "JobPosting \<Rightarrow> job_row" where
  "job_to_row job =
     \<lparr>r_id = job_id job, r_title = title job, r_company = company job,
      r_location = location job, r_description = description job,
      r_salary_min = salary_min job, r_salary_max = salary_max job,
      r_salary_currency = salary_currency job, r_job_type = job_type job,
      r_experience_level = experience_level job, r_remote = (if remote job then 1 else 0),
      r_skills = Some (skills job), r_source = source job, r_url = url job,
      r_posted_date = map_option isoformat (posted_date job),
      r_scraped_at = isoformat (scraped_at job)\<rparr>"

text \<open>
  \<^verbatim>\<open>INSERT OR IGNORE\<close>: a row whose primary key is already present is ignored. The
  result is \<^verbatim>\<open>cursor.rowcount\<close> and the table.
\<close>

definition insert_or_ignore :: "job_row list \<Rightarrow> job_row \<Rightarrow> int \<times> job_row list" where
  "insert_or_ignore rows row =
     (if r_id row \<in> set (map r_id rows) then (0, rows) else (1, rows @ [row]))"

text \<open>
  Storage failures. A call of \<^verbatim>\<open>insert_job\<close> opens a connection and then, inside its
  \<^verbatim>\<open>try\<close> block, calls the storage layer: call number 0 is the \<^verbatim>\<open>INSERT OR IGNORE\<close>,
  then comes one \<^verbatim>\<open>INSERT INTO job_skills\<close> per skill, then \<^verbatim>\<open>conn.commit()\<close>. A fault plan
  says what fails during one call of \<^verbatim>\<open>insert_job\<close>: \<open>ConnectFails\<close> makes
  \<^verbatim>\<open>sqlite3.connect\<close> raise, \<open>CallFails k\<close> makes call number \<open>k\<close> raise; both errors are
  instances of \<^verbatim>\<open>sqlite3.Error\<close>. \<open>None\<close> is a run without failure.
\<close>

datatype storage_fault = ConnectFails | CallFails nat

datatype sqlite_error = SqliteError

definition get_connection :: "storage_fault option \<Rightarrow> sqlite_error + unit" where
  "get_connection fault = (if fault = Some ConnectFails then Inl SqliteError else Inr ())"

text \<open>
  The loop over \<^verbatim>\<open>job.skills\<close>. The state is the number of the next storage call,
  \<^verbatim>\<open>cursor.rowcount\<close> and the pending contents of \<^verbatim>\<open>job_skills\<close>.
\<close>

fun insert_skills ::
  "storage_fault option \<Rightarrow> string \<Rightarrow> string list \<Rightarrow> nat \<times> int \<times> (string \<times> string) list \<Rightarrow>
   sqlite_error + nat \<times> int \<times> (string \<times> string) list" where
  "insert_skills fault jid [] st = Inr st"
| "insert_skills fault jid (skill # rest) (k, rowcount, tbl) =
     (if fault = Some (CallFails k) then Inl SqliteError
      else insert_skills fault jid rest (Suc k, 1, tbl @ [(jid, lower skill)]))"

text \<open>The body of the \<^verbatim>\<open>try\<close> block of \<^verbatim>\<open>insert_job\<close>: \<open>Inl\<close> is a raised \<^verbatim>\<open>sqlite3.Error\<close>.\<close>

definition insert_job_try ::
  "storage_fault option \<Rightarrow> database \<Rightarrow> JobPosting \<Rightarrow> sqlite_error + bool \<times> database" where
  "insert_job_try fault db job =
     (if fault = Some (CallFails 0) then Inl SqliteError
      else
        (case insert_or_ignore (jobs db) (job_to_row job) of
           (rowcount, rows) \<Rightarrow>
             (case (if rowcount > 0
                    then insert_skills fault (job_id job) (skills job) (1, rowcount, job_skills db)
                    else Inr (1, rowcount, job_skills db)) of
                Inl e \<Rightarrow> Inl e
              | Inr (k, rowcount', tbl) \<Rightarrow>
                  if fault = Some (CallFails k) then Inl SqliteError
                  else Inr (rowcount' > 0, \<lparr>jobs = rows, job_skills = tbl\<rparr>))))"

text \<open>
  \<^verbatim>\<open>insert_job\<close>. The connection is acquired by the \<^verbatim>\<open>with\<close> statement, outside the
  \<^verbatim>\<open>try\<close> block, so an error raised there leaves the method (\<open>Inl\<close>). An error raised
  inside the \<^verbatim>\<open>try\<close> block is handled by \<^verbatim>\<open>except sqlite3.Error\<close>, which returns
  \<^verbatim>\<open>False\<close>; the connection is then closed without a commit, which discards the pending
  transaction.
\<close>

definition insert_job ::
  "storage_fault option \<Rightarrow> database \<Rightarrow> JobPosting \<Rightarrow> sqlite_error + bool \<times> database" where
  "insert_job fault db job =
     (case get_connection fault of
        Inl e \<Rightarrow> Inl e
      | Inr conn \<Rightarrow>
          (case insert_job_try fault db job of
             Inl e \<Rightarrow> Inr (False, db)
           | Inr res \<Rightarrow> Inr res))"

text \<open>
  \<^verbatim>\<open>insert_many\<close>: the loop calls \<^verbatim>\<open>insert_job\<close> for each posting and counts the two
  outcomes; an error that leaves \<^verbatim>\<open>insert_job\<close> leaves the loop as well. \<open>plan i\<close> is the
  fault plan of the \<open>i\<close>-th call.
\<close>

fun insert_many_loop ::
  "(nat \<Rightarrow> storage_fault option) \<Rightarrow> nat \<Rightarrow> database \<Rightarrow> JobPosting list \<Rightarrow> nat \<Rightarrow> nat \<Rightarrow>
   sqlite_error + nat \<times> nat \<times> database" where
  "insert_many_loop plan i db [] inserted skipped = Inr (inserted, skipped, db)"
| "insert_many_loop plan i db (job # rest) inserted skipped =
     (case insert_job (plan i) db job of
        Inl e \<Rightarrow> Inl e
      | Inr (was_inserted, db') \<Rightarrow>
          if was_inserted then insert_many_loop plan (Suc i) db' rest (inserted + 1) skipped
          else insert_many_loop plan (Suc i) db' rest inserted (skipped + 1))"

definition insert_many ::
  "(nat \<Rightarrow> storage_fault option) \<Rightarrow> database \<Rightarrow> JobPosting list \<Rightarrow>
   sqlite_error + nat \<times> nat \<times> database" where
  "insert_many plan db all_jobs = insert_many_loop plan 0 db all_jobs 0 0"

text \<open>
  \<^verbatim>\<open>_row_to_job\<close>: the columns \<^verbatim>\<open>created_at\<close> and \<^verbatim>\<open>id\<close> are popped and the constructor
  is called on the rest, so the posting gets a newly generated id.
\<close>

definition row_to_job :: "(string \<Rightarrow> string) \<Rightarrow> string \<Rightarrow> job_row \<Rightarrow> JobPosting" where
  "row_to_job md5_hexdigest uuid row =
     post_init md5_hexdigest uuid
       \<lparr>title = r_title row, company = r_company row, location = r_location row,
        description = r_description row, salary_min = r_salary_min row,
        salary_max = r_salary_max row, salary_currency = r_salary_currency row,
        job_type = r_job_type row, experience_level = r_experience_level row,
        remote = (r_remote row \<noteq> 0),
        skills = (case r_skills row of None \<Rightarrow> [] | Some l \<Rightarrow> l),
        source = r_source row, url = r_url row,
        posted_date = map_option fromisoformat (r_posted_date row),
        scraped_at = fromisoformat (r_scraped_at row), job_id = []\<rparr>"

definition get_job :: "(string \<Rightarrow> string) \<Rightarrow> string \<Rightarrow> database \<Rightarrow> string \<Rightarrow> JobPosting option" where
  "get_job md5_hexdigest uuid db jid =
     (case find (\<lambda>row. r_id row = jid) (jobs db) of
        None \<Rightarrow> None
      | Some row \<Rightarrow> Some (row_to_job md5_hexdigest uuid row))"

text \<open>
  The dynamic \<^verbatim>\<open>WHERE\<close> clause of \<^verbatim>\<open>search_jobs\<close>: one condition is appended per argument
  that is truthy; a comparison with a NULL salary is not true.
\<close>

definition build_conditions ::
  "string option \<Rightarrow> string option \<Rightarrow> string option \<Rightarrow> string option \<Rightarrow> bool \<Rightarrow> real option \<Rightarrow>
   (job_row \<Rightarrow> bool) list" where
  "build_conditions query company_arg location_arg experience_level_arg remote_only min_salary =
     (case query of
        None \<Rightarrow> []
      | Some q \<Rightarrow>
          if q = [] then []
          else [\<lambda>row. like_anywhere q (r_title row) \<or> like_anywhere q (r_description row)
                       \<or> like_anywhere q (r_company row)])
     @ (case company_arg of
          None \<Rightarrow> []
        | Some c \<Rightarrow> if c = [] then [] else [\<lambda>row. like_anywhere c (r_company row)])
     @ (case location_arg of
          None \<Rightarrow> []
        | Some l \<Rightarrow> if l = [] then [] else [\<lambda>row. like_anywhere l (r_location row)])
     @ (case experience_level_arg of
          None \<Rightarrow> []
        | Some e \<Rightarrow> if e = [] then [] else [\<lambda>row. r_experience_level row = e])
     @ (if remote_only then [\<lambda>row. r_remote row = 1] else [])
     @ (case min_salary of
          None \<Rightarrow> []
        | Some m \<Rightarrow>
            if m = 0 then []
            else [\<lambda>row. (case r_salary_min row of None \<Rightarrow> False | Some s \<Rightarrow> m \<le> s)])"

text \<open>
  \<^verbatim>\<open>ORDER BY scraped_at DESC\<close> compares the ISO texts; rows with equal keys are kept in
  table order (SQL leaves their order open). \<^verbatim>\<open>LIMIT n\<close> with a negative \<open>n\<close> is no limit
  in SQLite.
\<close>

definition order_by_scraped_at_desc :: "job_row list \<Rightarrow> job_row list" where
  "order_by_scraped_at_desc rows = rev (sort_key r_scraped_at (rev rows))"

definition sql_limit :: "int \<Rightarrow> 'a list \<Rightarrow> 'a list" where
  "sql_limit n rows = (if n < 0 then rows else take (nat n) rows)"

definition select_jobs :: "(job_row \<Rightarrow> bool) list \<Rightarrow> int \<Rightarrow> database \<Rightarrow> job_row list" where
  "select_jobs conditions limit db =
     sql_limit limit
       (order_by_scraped_at_desc (filter (\<lambda>row. list_all (\<lambda>cond. cond row) conditions) (jobs db)))"

definition has_any_skill :: "string list \<Rightarrow> JobPosting \<Rightarrow> bool" where
  "has_any_skill skills_lower job = list_ex (\<lambda>s. s \<in> set (map lower (skills job))) skills_lower"

text \<open>
  \<^verbatim>\<open>search_jobs\<close>. Every returned posting is built by the constructor and draws its own
  uuid: \<open>uuid4 i\<close> is the draw for the \<open>i\<close>-th fetched row.
\<close>

definition search_jobs ::
  "(string \<Rightarrow> string) \<Rightarrow> (nat \<Rightarrow> string) \<Rightarrow> database \<Rightarrow>
   string option \<Rightarrow> string option \<Rightarrow> string option \<Rightarrow> string list option \<Rightarrow> string option \<Rightarrow>
   bool \<Rightarrow> real option \<Rightarrow> int \<Rightarrow> JobPosting list" where
  "search_jobs md5_hexdigest uuid4 db query company_arg location_arg skills_arg
       experience_level_arg remote_only min_salary limit =
     (let conditions = build_conditions query company_arg location_arg experience_level_arg
                         remote_only min_salary;
          rows = select_jobs conditions limit db;
          found = map (\<lambda>(i, row). row_to_job md5_hexdigest (uuid4 i) row) (enumerate 0 rows)
      in case skills_arg of
           None \<Rightarrow> found
         | Some sk \<Rightarrow> if sk = [] then found else filter (has_any_skill (map lower sk)) found)"

definition get_all_jobs :: "(string \<Rightarrow> string) \<Rightarrow> (nat \<Rightarrow> string) \<Rightarrow> database \<Rightarrow> int \<Rightarrow> JobPosting list" where
  "get_all_jobs md5_hexdigest uuid4 db limit =
     search_jobs md5_hexdigest uuid4 db None None None None None False None limit"

text \<open>
  \<^verbatim>\<open>get_stats\<close>, the entries \<^verbatim>\<open>total_jobs\<close> and \<^verbatim>\<open>remote_distribution\<close>. SQL's \<^verbatim>\<open>SUM\<close> over no
  rows is NULL, which Python receives as \<^verbatim>\<open>None\<close>.
\<close>

definition sql_sum :: "int list \<Rightarrow> int option" where
  "sql_sum vals = (if vals = [] then None else Some (sum_list vals))"

record stats =
  total_jobs :: int
  remote_distribution_remote :: "int option"
  remote_distribution_on_site :: "int option"

definition get_stats :: "database \<Rightarrow> stats" where
  "get_stats db =
     \<lparr>total_jobs = int (length (jobs db)),
      remote_distribution_remote =
        sql_sum (map (\<lambda>row. if r_remote row = 1 then 1 else 0) (jobs db)),
      remote_distribution_on_site =
        sql_sum (map (\<lambda>row. if r_remote row = 0 then 1 else 0) (jobs db))\<rparr>"

section \<open>The semantic index: \<^verbatim>\<open>JobVectorStore\<close> (src/rag/vector\_store.py)\<close>

text \<open>
  The metadata bag of a document. \<open>m_salary_min\<close> is optional because \<^verbatim>\<open>search\<close> reads
  it with \<^verbatim>\<open>metadata.get('salary_min', 0)\<close>; \<open>None\<close> is a bag without that key.
\<close>

record metadata =
  m_company :: string
  m_location :: string
  m_experience_level :: string
  m_remote :: string
  m_salary_min :: "real option"
  m_salary_max :: real
  m_skills :: string
  m_source :: string

record entry =
  e_id :: string
  e_document :: string
  e_metadata :: metadata

fun join :: "string \<Rightarrow> string list \<Rightarrow> string" where
  "join sep [] = []"
| "join sep [x] = x"
| "join sep (x # y # ys) = x @ sep @ join sep (y # ys)"

text \<open>
  \<^verbatim>\<open>_job_to_document\<close>. The parameter \<open>fmt\<close> stands for the float format \<^verbatim>\<open>{:,.0f}\<close>.
\<close>

definition job_to_document :: "(real \<Rightarrow> string) \<Rightarrow> JobPosting \<Rightarrow> string" where
  "job_to_document fmt job =
     (let parts =
            [''Job Title: '' @ title job, ''Company: '' @ company job,
             ''Location: '' @ location job, ''Experience Level: '' @ experience_level job,
             ''Remote: '' @ (if remote job then ''Yes'' else ''No''),
             ''Skills: '' @ join '', '' (skills job), ''Description: '' @ description job];
          parts' =
            (case (salary_min job, salary_max job) of
               (Some lo, Some hi) \<Rightarrow>
                 if lo \<noteq> 0 \<and> hi \<noteq> 0
                 then take 4 parts @ [''Salary: $'' @ fmt lo @ '' - $'' @ fmt hi] @ drop 4 parts
                 else parts
             | _ \<Rightarrow> parts)
      in join [CHR 0x0A] parts')"

definition job_metadata :: "JobPosting \<Rightarrow> metadata" where
  "job_metadata job =
     \<lparr>m_company = company job, m_location = location job,
      m_experience_level = experience_level job,
      m_remote = (if remote job then ''True'' else ''False''),
      m_salary_min = Some (case salary_min job of None \<Rightarrow> 0 | Some v \<Rightarrow> v),
      m_salary_max = (case salary_max job of None \<Rightarrow> 0 | Some v \<Rightarrow> v),
      m_skills = join '', '' (take 10 (skills job)), m_source = source job\<rparr>"

definition job_entry :: "(real \<Rightarrow> string) \<Rightarrow> JobPosting \<Rightarrow> entry" where
  "job_entry fmt job =
     \<lparr>e_id = job_id job, e_document = job_to_document fmt job, e_metadata = job_metadata job\<rparr>"

text \<open>
  The inner loop of \<^verbatim>\<open>add_jobs\<close> over one batch. The state is \<^verbatim>\<open>seen_ids\<close>, the entries
  collected for \<^verbatim>\<open>collection.add\<close> and the counter \<^verbatim>\<open>skipped\<close>.
\<close>

fun process_batch ::
  "(real \<Rightarrow> string) \<Rightarrow> string set \<Rightarrow> JobPosting list \<Rightarrow> string set \<times> entry list \<times> nat \<Rightarrow>
   string set \<times> entry list \<times> nat" where
  "process_batch fmt existing_ids [] st = st"
| "process_batch fmt existing_ids (job # rest) (seen_ids, pending, skipped) =
     (if job_id job \<in> existing_ids \<or> job_id job \<in> seen_ids
      then process_batch fmt existing_ids rest (seen_ids, pending, skipped + 1)
      else process_batch fmt existing_ids rest
             (insert (job_id job) seen_ids, pending @ [job_entry fmt job], skipped))"

text \<open>
  \<^verbatim>\<open>range(0, total, batch_size)\<close>: a zero step raises \<^verbatim>\<open>ValueError\<close>, a negative step
  gives the empty range.
\<close>

definition batch_starts :: "nat \<Rightarrow> int \<Rightarrow> py_error + nat list" where
  "batch_starts total_n batch_size =
     (if batch_size = 0 then Inl ValueError
      else if batch_size < 0 then Inr []
      else Inr (map (\<lambda>k. k * nat batch_size)
                  [0 ..< (total_n + nat batch_size - 1) div nat batch_size]))"

text \<open>
  One round of the outer loop: the batch \<^verbatim>\<open>jobs[i:i + batch_size]\<close> is scanned, and its
  new entries, if any, are handed to \<^verbatim>\<open>collection.add\<close>, which appends them. The state is
  the collection, \<^verbatim>\<open>seen_ids\<close>, \<^verbatim>\<open>added\<close> and \<^verbatim>\<open>skipped\<close>.
\<close>

definition add_batch ::
  "(real \<Rightarrow> string) \<Rightarrow> string set \<Rightarrow> JobPosting list \<Rightarrow> nat \<Rightarrow> nat \<Rightarrow>
   entry list \<times> string set \<times> nat \<times> nat \<Rightarrow> entry list \<times> string set \<times> nat \<times> nat" where
  "add_batch fmt existing_ids all_jobs batch_size i st =
     (case st of
        (collection, seen_ids, added, skipped) \<Rightarrow>
          (case process_batch fmt existing_ids (take batch_size (drop i all_jobs))
                  (seen_ids, [], skipped) of
             (seen_ids', pending, skipped') \<Rightarrow>
               if pending \<noteq> []
               then (collection @ pending, seen_ids', added + length pending, skipped')
               else (collection, seen_ids', added, skipped')))"

text \<open>
  \<^verbatim>\<open>add_jobs\<close> returns \<^verbatim>\<open>(added, skipped)\<close>; the model returns the new collection as well.
  \<^verbatim>\<open>existing_ids\<close> is read once, before the loop.
\<close>

definition add_jobs ::
  "(real \<Rightarrow> string) \<Rightarrow> int \<Rightarrow> entry list \<Rightarrow> JobPosting list \<Rightarrow> py_error + nat \<times> nat \<times> entry list" where
  "add_jobs fmt batch_size collection all_jobs =
     (let existing_ids = set (map e_id collection) in
      case batch_starts (length all_jobs) batch_size of
        Inl e \<Rightarrow> Inl e
      | Inr starts \<Rightarrow>
          (case fold (add_batch fmt existing_ids all_jobs (nat batch_size)) starts
                  (collection, {}, 0, 0) of
             (collection', seen_ids, added, skipped) \<Rightarrow> Inr (added, skipped, collection')))"

text \<open>
  What the skip logic is to achieve, stated on the whole list: \<open>fresh_jobs\<close> keeps a
  posting when its id is neither indexed already nor met earlier in the list.
\<close>

fun fresh_jobs :: "string set \<Rightarrow> string set \<Rightarrow> JobPosting list \<Rightarrow> JobPosting list" where
  "fresh_jobs existing_ids seen_ids [] = []"
| "fresh_jobs existing_ids seen_ids (job # rest) =
     (if job_id job \<in> existing_ids \<or> job_id job \<in> seen_ids
      then fresh_jobs existing_ids seen_ids rest
      else job # fresh_jobs existing_ids (insert (job_id job) seen_ids) rest)"

text \<open>
  Similarity search. The nearest-neighbour query of the underlying index is the
  parameter \<open>collection_query\<close>: query text, \<^verbatim>\<open>n_results\<close> and the \<^verbatim>\<open>where\<close> filter go in,
  the hits (document, metadata, distance and id of each) come out.
\<close>

datatype where_clause = Eq string string | And "where_clause list"

record hit =
  h_id :: string
  h_document :: string
  h_metadata :: metadata
  h_distance :: real

record search_result =
  sr_document :: string
  sr_metadata :: metadata
  similarity_score :: real
  sr_id :: string

definition build_where :: "string option \<Rightarrow> bool \<Rightarrow> where_clause option" where
  "build_where experience_level_arg remote_only =
     (let filters =
            (case experience_level_arg of
               None \<Rightarrow> []
             | Some e \<Rightarrow> if e = [] then [] else [Eq ''experience_level'' e])
            @ (if remote_only then [Eq ''remote'' ''True''] else [])
      in case filters of
           [] \<Rightarrow> None
         | [f] \<Rightarrow> Some f
         | _ \<Rightarrow> Some (And filters))"

text \<open>The loop over the hits: the salary floor is applied here, then the score is computed.\<close>

fun process_results :: "real option \<Rightarrow> hit list \<Rightarrow> search_result list" where
  "process_results min_salary [] = []"
| "process_results min_salary (h # rest) =
     (if (case min_salary of None \<Rightarrow> False | Some m \<Rightarrow> m \<noteq> 0
            \<and> (case m_salary_min (h_metadata h) of None \<Rightarrow> 0 | Some s \<Rightarrow> s) < m)
      then process_results min_salary rest
      else \<lparr>sr_document = h_document h, sr_metadata = h_metadata h,
            similarity_score = py_round 3 (max 0 (1 - h_distance h)),
            sr_id = h_id h\<rparr> # process_results min_salary rest)"

definition search ::
  "(string \<Rightarrow> int \<Rightarrow> where_clause option \<Rightarrow> hit list) \<Rightarrow> string \<Rightarrow> int \<Rightarrow> string option \<Rightarrow> bool \<Rightarrow>
   real option \<Rightarrow> search_result list" where
  "search collection_query query n_results experience_level_arg remote_only min_salary =
     (let results = collection_query query (n_results * 2)
                      (build_where experience_level_arg remote_only)
      in slice_to n_results (process_results min_salary results))"

section \<open>The analytics engine: \<^verbatim>\<open>JobAnalyzer\<close> (src/analytics/analyzer.py)\<close>

text \<open>The title classifier inside \<^verbatim>\<open>get_salary_by_role\<close>.\<close>

definition get_base_role :: "string \<Rightarrow> string" where
  "get_base_role title_arg =
     (let title_lower = lower title_arg in
      if contains ''data engineer'' title_lower then ''Data Engineer''
      else if contains ''machine learning'' title_lower \<or> contains ''ml engineer'' title_lower
        then ''ML Engineer''
      else if contains ''ai engineer'' title_lower then ''AI Engineer''
      else if contains ''data scientist'' title_lower then ''Data Scientist''
      else if contains ''backend'' title_lower then ''Backend Engineer''
      else if contains ''full stack'' title_lower \<or> contains ''fullstack'' title_lower
        then ''Full Stack Engineer''
      else if contains ''devops'' title_lower \<or> contains ''sre'' title_lower
        then ''DevOps Engineer''
      else if contains ''analytics'' title_lower then ''Analytics Engineer''
      else ''Other'')"

text \<open>
  The same classifier as a table: the rules in priority order, each with its keywords,
  and the first rule with a keyword occurring in the lower-cased title wins.
\<close>

definition role_rules :: "(string list \<times> string) list" where
  "role_rules =
     [([''data engineer''], ''Data Engineer''),
      ([''machine learning'', ''ml engineer''], ''ML Engineer''),
      ([''ai engineer''], ''AI Engineer''),
      ([''data scientist''], ''Data Scientist''),
      ([''backend''], ''Backend Engineer''),
      ([''full stack'', ''fullstack''], ''Full Stack Engineer''),
      ([''devops'', ''sre''], ''DevOps Engineer''),
      ([''analytics''], ''Analytics Engineer'')]"

fun first_matching_rule :: "(string list \<times> string) list \<Rightarrow> string \<Rightarrow> string" where
  "first_matching_rule [] t = ''Other''"
| "first_matching_rule ((keywords, role) # rules) t =
     (if list_ex (\<lambda>k. contains k t) keywords then role else first_matching_rule rules t)"

text \<open>
  \<^verbatim>\<open>get_remote_stats\<close>. \<^verbatim>\<open>remote_dist.get('remote', 0)\<close> finds the key, so a NULL sum arrives
  as \<^verbatim>\<open>None\<close>, and \<^verbatim>\<open>remote + onsite\<close> raises \<^verbatim>\<open>TypeError\<close> unless both are numbers.
\<close>

record remote_stats =
  remote_count :: int
  onsite_count :: int
  remote_percentage :: real
  onsite_percentage :: real

definition get_remote_stats :: "database \<Rightarrow> py_error + remote_stats" where
  "get_remote_stats db =
     (let st = get_stats db in
      case (remote_distribution_remote st, remote_distribution_on_site st) of
        (Some remote_n, Some onsite_n) \<Rightarrow>
          (let total_n = remote_n + onsite_n in
           Inr \<lparr>remote_count = remote_n, onsite_count = onsite_n,
                remote_percentage =
                  (if total_n > 0 then py_round 1 (of_int remote_n / of_int total_n * 100) else 0),
                onsite_percentage =
                  (if total_n > 0 then py_round 1 (of_int onsite_n / of_int total_n * 100) else 0)\<rparr>)
      | _ \<Rightarrow> Inl TypeError)"

text \<open>
  \<^verbatim>\<open>get_jobs_dataframe\<close>. A Python float inside the frame is a number or NaN. pandas
  stores a column that mixes floats and \<^verbatim>\<open>None\<close> as \<^verbatim>\<open>float64\<close> with every \<^verbatim>\<open>None\<close> turned
  into NaN; a column holding nothing but \<^verbatim>\<open>None\<close> keeps its \<^verbatim>\<open>None\<close> objects.
\<close>

datatype pyfloat = NaN | Num real

definition float_column :: "real option list \<Rightarrow> pyfloat option list" where
  "float_column vals =
     (if list_all (\<lambda>v. v = None) vals then map (\<lambda>v. None) vals
      else map (\<lambda>v. case v of None \<Rightarrow> Some NaN | Some x \<Rightarrow> Some (Num x)) vals)"

record df_row =
  df_id :: string
  df_title :: string
  df_company :: string
  df_location :: string
  df_salary_min :: "pyfloat option"
  df_salary_max :: "pyfloat option"
  df_experience_level :: string
  df_remote :: bool
  df_skills :: "string list"
  df_posted_date :: "datetime option"
  df_source :: string

definition dataframe :: "JobPosting list \<Rightarrow> df_row list" where
  "dataframe found =
     map (\<lambda>(job, lo, hi).
            \<lparr>df_id = job_id job, df_title = title job, df_company = company job,
             df_location = location job, df_salary_min = lo, df_salary_max = hi,
             df_experience_level = experience_level job, df_remote = remote job,
             df_skills = skills job, df_posted_date = posted_date job,
             df_source = source job\<rparr>)
         (zip found (zip (float_column (map salary_min found))
                         (float_column (map salary_max found))))"

definition get_jobs_dataframe :: "(string \<Rightarrow> string) \<Rightarrow> (nat \<Rightarrow> string) \<Rightarrow> database \<Rightarrow> df_row list" where
  "get_jobs_dataframe md5_hexdigest uuid4 db = dataframe (get_all_jobs md5_hexdigest uuid4 db 10000)"

text \<open>
  Float operations with NaN: NaN is truthy, arithmetic with NaN gives NaN, every
  comparison with NaN is false. Adding \<^verbatim>\<open>None\<close> raises \<^verbatim>\<open>TypeError\<close>.
\<close>

definition truthy_cell :: "pyfloat option \<Rightarrow> bool" where
  "truthy_cell c = (case c of None \<Rightarrow> False | Some NaN \<Rightarrow> True | Some (Num x) \<Rightarrow> x \<noteq> 0)"

fun pf_add :: "pyfloat \<Rightarrow> pyfloat \<Rightarrow> pyfloat" where
  "pf_add (Num a) (Num b) = Num (a + b)"
| "pf_add a b = NaN"

fun pf_div :: "pyfloat \<Rightarrow> real \<Rightarrow> pyfloat" where
  "pf_div (Num a) d = Num (a / d)"
| "pf_div NaN d = NaN"

fun pf_less :: "pyfloat \<Rightarrow> pyfloat \<Rightarrow> bool" where
  "pf_less (Num a) (Num b) = (a < b)"
| "pf_less a b = False"

fun pf_round :: "nat \<Rightarrow> pyfloat \<Rightarrow> pyfloat" where
  "pf_round ndigits (Num a) = Num (py_round ndigits a)"
| "pf_round ndigits NaN = NaN"

definition cell_add :: "pyfloat option \<Rightarrow> pyfloat option \<Rightarrow> py_error + pyfloat" where
  "cell_add a b = (case (a, b) of (Some x, Some y) \<Rightarrow> Inr (pf_add x y) | _ \<Rightarrow> Inl TypeError)"

text \<open>
  \<^verbatim>\<open>skill_salaries\<close> is a dictionary from skill to the list of salaries appended so far,
  kept in insertion order.
\<close>

fun append_salary :: "string \<Rightarrow> pyfloat \<Rightarrow> (string \<times> pyfloat list) list \<Rightarrow> (string \<times> pyfloat list) list" where
  "append_salary skill v [] = [(skill, [v])]"
| "append_salary skill v ((k, vs) # rest) =
     (if k = skill then (k, vs @ [v]) # rest else (k, vs) # append_salary skill v rest)"

fun accumulate_salaries ::
  "df_row list \<Rightarrow> (string \<times> pyfloat list) list \<Rightarrow> py_error + (string \<times> pyfloat list) list" where
  "accumulate_salaries [] skill_salaries = Inr skill_salaries"
| "accumulate_salaries (row # rest) skill_salaries =
     (if truthy_cell (df_salary_max row) \<and> df_skills row \<noteq> []
      then (case cell_add (df_salary_min row) (df_salary_max row) of
              Inl e \<Rightarrow> Inl e
            | Inr s \<Rightarrow>
                accumulate_salaries rest
                  (fold (\<lambda>skill. append_salary skill (pf_div s 2)) (df_skills row) skill_salaries))
      else accumulate_salaries rest skill_salaries)"

text \<open>
  \<^verbatim>\<open>sorted(..., key=value, reverse=True)\<close> is stable: entries with equal values keep their
  order. On values without NaN that is the function below; with NaN among the values
  Python's order depends on the internals of its sort and the function gives one
  possible outcome.
\<close>

fun insert_desc :: "string \<times> pyfloat \<Rightarrow> (string \<times> pyfloat) list \<Rightarrow> (string \<times> pyfloat) list" where
  "insert_desc x [] = [x]"
| "insert_desc x (y # ys) =
     (if pf_less (snd x) (snd y) then y # insert_desc x ys else x # y # ys)"

definition sorted_desc :: "(string \<times> pyfloat) list \<Rightarrow> (string \<times> pyfloat) list" where
  "sorted_desc items = foldr insert_desc items []"

definition skill_avg_salary :: "(string \<times> pyfloat list) list \<Rightarrow> (string \<times> pyfloat) list" where
  "skill_avg_salary skill_salaries =
     map (\<lambda>(skill, salaries).
            (skill, pf_round 0 (pf_div (fold (\<lambda>v acc. pf_add acc v) salaries (Num 0))
                                  (of_nat (length salaries)))))
         (filter (\<lambda>(skill, salaries). length salaries \<ge> 5) skill_salaries)"

definition skill_salary_correlation :: "df_row list \<Rightarrow> py_error + (string \<times> pyfloat) list" where
  "skill_salary_correlation df =
     (case accumulate_salaries df [] of
        Inl e \<Rightarrow> Inl e
      | Inr skill_salaries \<Rightarrow> Inr (take 15 (sorted_desc (skill_avg_salary skill_salaries))))"

definition get_skill_salary_correlation ::
  "(string \<Rightarrow> string) \<Rightarrow> (nat \<Rightarrow> string) \<Rightarrow> database \<Rightarrow> py_error + (string \<times> pyfloat) list" where
  "get_skill_salary_correlation md5_hexdigest uuid4 db =
     skill_salary_correlation (get_jobs_dataframe md5_hexdigest uuid4 db)"

section \<open>Example data\<close>

text \<open>
  Concrete values on which the results below are evaluated. \<open>example_md5\<close>,
  \<open>example_uuid4\<close> and \<open>example_fmt\<close> are stand-ins for the digest, the random draws and
  the float format.
\<close>

definition example_md5 :: "string \<Rightarrow> string" where
  "example_md5 s = rev s"

definition example_uuid4 :: "nat \<Rightarrow> string" where
  "example_uuid4 i = replicate (Suc i) CHR ''u''"

definition example_fmt :: "real \<Rightarrow> string" where
  "example_fmt x = ''0''"

definition acme_job :: JobPosting where
  "acme_job =
     \<lparr>title = ''Senior Data Engineer'', company = ''Acme Corp'', location = ''Austin, TX'',
      description = ''Pipelines in Python and SQL'', salary_min = Some 150000,
      salary_max = Some 200000, salary_currency = ''USD'', job_type = ''Full-time'',
      experience_level = ''Senior'', remote = True, skills = [''Python'', ''sql''],
      source = ''sample'', url = None, posted_date = None,
      scraped_at = Datetime ''2024-01-01T00:00:00'', job_id = ''0123456789abcdef''\<rparr>"

definition globex_job :: JobPosting where
  "globex_job =
     \<lparr>title = ''ML Engineer'', company = ''Globex'', location = ''Seattle, WA'',
      description = ''Models in PyTorch'', salary_min = None, salary_max = None,
      salary_currency = ''USD'', job_type = ''Full-time'', experience_level = ''Mid'',
      remote = False, skills = [''python'', ''pytorch''], source = ''sample'', url = None,
      posted_date = Some (Datetime ''2024-01-15T00:00:00''),
      scraped_at = Datetime ''2024-01-20T00:00:00'', job_id = ''fedcba9876543210''\<rparr>"

text \<open>The stores that hold the first posting, the first two, and the five Python postings.\<close>

definition acme_db :: database where
  "acme_db =
     \<lparr>jobs = [job_to_row acme_job],
      job_skills = [(''0123456789abcdef'', ''python''), (''0123456789abcdef'', ''sql'')]\<rparr>"

definition two_jobs_db :: database where
  "two_jobs_db =
     \<lparr>jobs = [job_to_row acme_job, job_to_row globex_job],
      job_skills = [(''0123456789abcdef'', ''python''), (''0123456789abcdef'', ''sql''),
                    (''fedcba9876543210'', ''python''), (''fedcba9876543210'', ''pytorch'')]\<rparr>"

text \<open>Five postings that ask for Python; the last one states no salary.\<close>

definition python_job :: "string \<Rightarrow> real option \<Rightarrow> real option \<Rightarrow> JobPosting" where
  "python_job jid lo hi =
     \<lparr>title = ''Backend Developer'', company = ''Initech'', location = ''Remote'',
      description = ''Services in Python'', salary_min = lo, salary_max = hi,
      salary_currency = ''USD'', job_type = ''Full-time'', experience_level = ''Mid'',
      remote = True, skills = [''python''], source = ''remotive'', url = None,
      posted_date = None, scraped_at = Datetime ''2024-02-01T00:00:00'', job_id = jid\<rparr>"

definition five_python_jobs :: "JobPosting list" where
  "five_python_jobs =
     [python_job ''id1'' (Some 100000) (Some 140000),
      python_job ''id2'' (Some 110000) (Some 150000),
      python_job ''id3'' (Some 120000) (Some 160000),
      python_job ''id4'' (Some 130000) (Some 170000),
      python_job ''id5'' None None]"

definition five_python_db :: database where
  "five_python_db =
     \<lparr>jobs = map job_to_row five_python_jobs,
      job_skills = [(''id1'', ''python''), (''id2'', ''python''), (''id3'', ''python''),
                    (''id4'', ''python''), (''id5'', ''python'')]\<rparr>"

text \<open>Five postings that ask for Python and all state a salary.\<close>

definition salaried_python_jobs :: "JobPosting list" where
  "salaried_python_jobs = python_job ''id0'' (Some 90000) (Some 110000) # take 4 five_python_jobs"

definition salaried_python_db :: database where
  "salaried_python_db =
     \<lparr>jobs = map job_to_row salaried_python_jobs,
      job_skills = [(''id0'', ''python''), (''id1'', ''python''), (''id2'', ''python''),
                    (''id3'', ''python''), (''id4'', ''python'')]\<rparr>"

definition no_faults :: "nat \<Rightarrow> storage_fault option" where
  "no_faults i = None"

text \<open>An index that answers every query with the first \<^verbatim>\<open>n_results\<close> of three fixed hits.\<close>

definition example_hits :: "hit list" where
  "example_hits =
     [\<lparr>h_id = ''j1'', h_document = ''Job Title: Data Analyst'',
       h_metadata = \<lparr>m_company = ''Initech'', m_location = ''Remote'',
                     m_experience_level = ''Entry'', m_remote = ''True'',
                     m_salary_min = Some 90000, m_salary_max = 110000,
                     m_skills = ''sql'', m_source = ''sample''\<rparr>,
       h_distance = 1 / 4\<rparr>,
      \<lparr>h_id = ''j2'', h_document = ''Job Title: ML Engineer'',
       h_metadata = \<lparr>m_company = ''Globex'', m_location = ''Seattle, WA'',
                     m_experience_level = ''Senior'', m_remote = ''False'',
                     m_salary_min = Some 120000, m_salary_max = 160000,
                     m_skills = ''python'', m_source = ''sample''\<rparr>,
       h_distance = 3 / 2\<rparr>,
      \<lparr>h_id = ''j3'', h_document = ''Job Title: Data Engineer'',
       h_metadata = \<lparr>m_company = ''Acme Corp'', m_location = ''Austin, TX'',
                     m_experience_level = ''Senior'', m_remote = ''True'',
                     m_salary_min = Some 150000, m_salary_max = 200000,
                     m_skills = ''python, sql'', m_source = ''sample''\<rparr>,
       h_distance = 2 / 5\<rparr>]"

definition example_query :: "string \<Rightarrow> int \<Rightarrow> where_clause option \<Rightarrow> hit list" where
  "example_query query n_results where_arg = take (nat n_results) example_hits"

section \<open>Results on the relational store\<close>

subsection \<open>Insertion\<close>

lemma insert_skills_cases:
  "insert_skills fault jid sk (k, rc, tbl) = Inl SqliteError
   \<or> insert_skills fault jid sk (k, rc, tbl) =
       Inr (k + length sk, (if sk = [] then rc else 1), tbl @ map (\<lambda>s. (jid, lower s)) sk)"
proof (induction sk arbitrary: k rc tbl)
  case Nil
  show ?case by simp
next
  case (Cons s sk)
  from Cons.IH [of "Suc k" 1 "tbl @ [(jid, lower s)]"] show ?case by auto
qed

lemma insert_skills_result:
  "insert_skills fault jid sk (k, rc, tbl) = Inr (k', rc', tbl') \<Longrightarrow>
   k' = k + length sk \<and> rc' = (if sk = [] then rc else 1)
   \<and> tbl' = tbl @ map (\<lambda>s. (jid, lower s)) sk"
  using insert_skills_cases [of fault jid sk k rc tbl] by auto

lemma insert_skills_no_call_fault:
  "\<forall>k. fault \<noteq> Some (CallFails k) \<Longrightarrow>
   insert_skills fault jid sk (k, rc, tbl) =
     Inr (k + length sk, (if sk = [] then rc else 1), tbl @ map (\<lambda>s. (jid, lower s)) sk)"
  by (induction sk arbitrary: k rc tbl) auto

lemma insert_job_try_no_call_fault:
  assumes "\<forall>k. fault \<noteq> Some (CallFails k)"
  shows "insert_job_try fault db job =
     (if job_id job \<in> set (map r_id (jobs db)) then Inr (False, db)
      else Inr (True, \<lparr>jobs = jobs db @ [job_to_row job],
                       job_skills = job_skills db @ map (\<lambda>s. (job_id job, lower s)) (skills job)\<rparr>))"
  using assms
  by (simp add: insert_job_try_def insert_or_ignore_def insert_skills_no_call_fault
        job_to_row_def)

lemma insert_job_try_error_is_call_fault:
  "insert_job_try fault db job = Inl e \<Longrightarrow> \<exists>k. fault = Some (CallFails k)"
proof (rule ccontr)
  assume err: "insert_job_try fault db job = Inl e" and "\<nexists>k. fault = Some (CallFails k)"
  then have "\<forall>k. fault \<noteq> Some (CallFails k)" by simp
  from insert_job_try_no_call_fault [OF this, of db job] err show False
    by (simp split: if_splits)
qed

lemma insert_job_try_duplicate:
  "job_id job \<in> set (map r_id (jobs db)) \<Longrightarrow>
   insert_job_try fault db job = Inl SqliteError \<or> insert_job_try fault db job = Inr (False, db)"
  by (simp add: insert_job_try_def insert_or_ignore_def job_to_row_def)

lemma insert_job_try_new:
  assumes "job_id job \<notin> set (map r_id (jobs db))"
  shows "insert_job_try fault db job = Inl SqliteError
         \<or> insert_job_try fault db job =
             Inr (True, \<lparr>jobs = jobs db @ [job_to_row job],
                         job_skills = job_skills db @ map (\<lambda>s. (job_id job, lower s)) (skills job)\<rparr>)"
proof (cases "insert_skills fault (job_id job) (skills job) (1, 1, job_skills db)")
  case (Inl e)
  with assms show ?thesis
    by (cases e) (simp add: insert_job_try_def insert_or_ignore_def job_to_row_def)
next
  case (Inr st)
  obtain k rc tbl where st: "st = (k, rc, tbl)" by (cases st)
  from insert_skills_result [OF Inr [unfolded st]]
  have "rc > 0" and "tbl = job_skills db @ map (\<lambda>s. (job_id job, lower s)) (skills job)"
    by (auto split: if_splits)
  with assms Inr st show ?thesis
    by (simp add: insert_job_try_def insert_or_ignore_def job_to_row_def)
qed

lemma insert_job_connect_fails: "insert_job (Some ConnectFails) db job = Inl SqliteError"
  by (simp add: insert_job_def get_connection_def)

lemma insert_job_connected:
  "fault \<noteq> Some ConnectFails \<Longrightarrow>
   insert_job fault db job =
     (case insert_job_try fault db job of Inl e \<Rightarrow> Inr (False, db) | Inr res \<Rightarrow> Inr res)"
  by (simp add: insert_job_def get_connection_def)

lemma insert_job_duplicate:
  "job_id job \<in> set (map r_id (jobs db)) \<Longrightarrow> fault \<noteq> Some ConnectFails \<Longrightarrow>
   insert_job fault db job = Inr (False, db)"
  using insert_job_try_duplicate [of job db fault] by (auto simp: insert_job_connected)

lemma insert_job_duplicate_any_fault:
  "job_id job \<in> set (map r_id (jobs db)) \<Longrightarrow>
   insert_job fault db job = Inr (False, db) \<or> insert_job fault db job = Inl SqliteError"
  using insert_job_duplicate [of job db fault] insert_job_connect_fails [of db job] by auto

lemma insert_job_new:
  "job_id job \<notin> set (map r_id (jobs db)) \<Longrightarrow>
   insert_job None db job =
     Inr (True, \<lparr>jobs = jobs db @ [job_to_row job],
                 job_skills = job_skills db @ map (\<lambda>s. (job_id job, lower s)) (skills job)\<rparr>)"
  by (simp add: insert_job_connected insert_job_try_no_call_fault)

lemma insert_skills_fault_inside:
  "j \<le> k \<Longrightarrow> k < j + length sk \<Longrightarrow>
   insert_skills (Some (CallFails k)) jid sk (j, rc, tbl) = Inl SqliteError"
proof (induction sk arbitrary: j rc tbl)
  case Nil
  then show ?case by simp
next
  case (Cons s sk)
  show ?case
  proof (cases "k = j")
    case True
    then show ?thesis by simp
  next
    case False
    with Cons.prems have "Suc j \<le> k" and "k < Suc j + length sk" by simp_all
    from Cons.IH [OF this] False show ?thesis by simp
  qed
qed

lemma insert_job_try_fault_new:
  assumes new: "job_id job \<notin> set (map r_id (jobs db))" and k: "k \<le> Suc (length (skills job))"
  shows "insert_job_try (Some (CallFails k)) db job = Inl SqliteError"
proof (cases "k = 0")
  case True
  then show ?thesis by (simp add: insert_job_try_def)
next
  case False
  show ?thesis
  proof (cases "k < 1 + length (skills job)")
    case True
    with False
    have "insert_skills (Some (CallFails k)) (job_id job) (skills job) (1, 1, job_skills db)
            = Inl SqliteError"
      by (intro insert_skills_fault_inside) simp_all
    with new False show ?thesis
      by (simp add: insert_job_try_def insert_or_ignore_def job_to_row_def)
  next
    case past: False
    with k have k_eq: "k = 1 + length (skills job)" by simp
    from insert_skills_cases [of "Some (CallFails k)" "job_id job" "skills job" 1 1 "job_skills db"]
    show ?thesis
      using new False k_eq
      by (auto simp: insert_job_try_def insert_or_ignore_def job_to_row_def)
  qed
qed

lemma insert_job_skill_rows:
  assumes "insert_job fault db job = Inr (b, db')"
  shows "job_skills db' =
     job_skills db @ (if b then map (\<lambda>s. (job_id job, lower s)) (skills job) else [])"
proof -
  from assms have conn: "fault \<noteq> Some ConnectFails"
    by (auto simp: insert_job_connect_fails)
  show ?thesis
  proof (cases "job_id job \<in> set (map r_id (jobs db))")
    case True
    with assms conn show ?thesis by (simp add: insert_job_duplicate)
  next
    case False
    from insert_job_try_new [OF False, of fault] assms conn show ?thesis
      by (auto simp: insert_job_connected)
  qed
qed

lemma insert_job_first:
  "\<exists>b db'. insert_job None db job = Inr (b, db') \<and> job_id job \<in> set (map r_id (jobs db'))"
proof (cases "job_id job \<in> set (map r_id (jobs db))")
  case True
  then have "insert_job None db job = Inr (False, db)"
    by (simp add: insert_job_duplicate)
  with True show ?thesis by blast
next
  case False
  let ?db' = "\<lparr>jobs = jobs db @ [job_to_row job],
               job_skills = job_skills db @ map (\<lambda>s. (job_id job, lower s)) (skills job)\<rparr>"
  from False have "insert_job None db job = Inr (True, ?db')"
    by (rule insert_job_new)
  moreover have "job_id job \<in> set (map r_id (jobs ?db'))"
    by (simp add: job_to_row_def)
  ultimately show ?thesis by blast
qed

lemma acme_db_inserted: "insert_job None init_db acme_job = Inr (True, acme_db)"
proof -
  have "lower ''Python'' = ''python''" and "lower ''sql'' = ''sql''"
    by code_simp+
  then show ?thesis
    by (simp add: insert_job_new init_db_def acme_db_def) (simp add: acme_job_def)
qed

lemma two_jobs_db_inserted: "insert_job None acme_db globex_job = Inr (True, two_jobs_db)"
proof -
  have "lower ''python'' = ''python''" and "lower ''pytorch'' = ''pytorch''"
    by code_simp+
  moreover have "job_id globex_job \<notin> set (map r_id (jobs acme_db))"
    by (simp add: acme_db_def globex_job_def acme_job_def job_to_row_def)
  ultimately show ?thesis
    by (simp add: insert_job_new acme_db_def two_jobs_db_def) (simp add: globex_job_def)
qed

lemma insert_job_outcomes:
  "insert_job fault db job = Inl SqliteError
   \<or> insert_job fault db job = Inr (False, db)
   \<or> (job_id job \<notin> set (map r_id (jobs db))
       \<and> insert_job fault db job =
           Inr (True, \<lparr>jobs = jobs db @ [job_to_row job],
                       job_skills = job_skills db
                         @ map (\<lambda>s. (job_id job, lower s)) (skills job)\<rparr>))"
proof (cases "fault = Some ConnectFails")
  case True
  then show ?thesis by (simp add: insert_job_connect_fails)
next
  case conn: False
  show ?thesis
  proof (cases "job_id job \<in> set (map r_id (jobs db))")
    case True
    with conn show ?thesis by (simp add: insert_job_duplicate)
  next
    case False
    from insert_job_try_new [OF False, of fault] conn False show ?thesis
      by (auto simp: insert_job_connected)
  qed
qed

text \<open>
  Claim C1. With a storage layer that works, \<^verbatim>\<open>insert_job\<close> on a posting whose id is not
  in table \<^verbatim>\<open>jobs\<close> returns \<^verbatim>\<open>True\<close>, appends the main row and appends one
  \<^verbatim>\<open>(job_id, skill)\<close> row per skill; on a posting whose id is in the table it returns
  \<^verbatim>\<open>False\<close> and changes nothing. So the flag of the first insert says whether the id was
  new, and the store after it holds the main row, and the skill rows once if the main
  row was inserted by this call and not at all otherwise. Inserting the posting a second
  time returns \<^verbatim>\<open>False\<close> and leaves the store as it was, with the same number of rows in
  \<^verbatim>\<open>jobs\<close> and no further skill rows; whatever fails in the second call, it neither
  returns \<^verbatim>\<open>True\<close> nor changes the store. Under any fault plan a call has one of three
  outcomes: the error of the connection leaves the method, or \<^verbatim>\<open>False\<close> is returned with
  the store unchanged, or the id was new and \<^verbatim>\<open>True\<close> is returned with the main row and
  the skill rows appended together.
\<close>

theorem insert_job_idempotent:
  "insert_job None db job =
     (if job_id job \<in> set (map r_id (jobs db)) then Inr (False, db)
      else Inr (True, \<lparr>jobs = jobs db @ [job_to_row job],
                       job_skills = job_skills db
                         @ map (\<lambda>s. (job_id job, lower s)) (skills job)\<rparr>))
   \<and> (case insert_job None db job of
        Inl e \<Rightarrow> False
      | Inr (b1, db1) \<Rightarrow>
          b1 = (job_id job \<notin> set (map r_id (jobs db)))
          \<and> jobs db1 = jobs db @ (if b1 then [job_to_row job] else [])
          \<and> job_skills db1 =
              job_skills db @ (if b1 then map (\<lambda>s. (job_id job, lower s)) (skills job) else [])
          \<and> insert_job None db1 job = Inr (False, db1)
          \<and> (insert_job fault db1 job = Inr (False, db1)
              \<or> insert_job fault db1 job = Inl SqliteError))
   \<and> (insert_job fault db job = Inl SqliteError
       \<or> insert_job fault db job = Inr (False, db)
       \<or> (job_id job \<notin> set (map r_id (jobs db))
           \<and> insert_job fault db job =
               Inr (True, \<lparr>jobs = jobs db @ [job_to_row job],
                           job_skills = job_skills db
                             @ map (\<lambda>s. (job_id job, lower s)) (skills job)\<rparr>)))"
proof (intro conjI)
  show first: "insert_job None db job =
     (if job_id job \<in> set (map r_id (jobs db)) then Inr (False, db)
      else Inr (True, \<lparr>jobs = jobs db @ [job_to_row job],
                       job_skills = job_skills db
                         @ map (\<lambda>s. (job_id job, lower s)) (skills job)\<rparr>))"
    by (simp add: insert_job_duplicate insert_job_new)
  show "case insert_job None db job of
        Inl e \<Rightarrow> False
      | Inr (b1, db1) \<Rightarrow>
          b1 = (job_id job \<notin> set (map r_id (jobs db)))
          \<and> jobs db1 = jobs db @ (if b1 then [job_to_row job] else [])
          \<and> job_skills db1 =
              job_skills db @ (if b1 then map (\<lambda>s. (job_id job, lower s)) (skills job) else [])
          \<and> insert_job None db1 job = Inr (False, db1)
          \<and> (insert_job fault db1 job = Inr (False, db1)
              \<or> insert_job fault db1 job = Inl SqliteError)"
  proof (cases "job_id job \<in> set (map r_id (jobs db))")
    case True
    with insert_job_duplicate_any_fault [OF True, of fault] show ?thesis
      by (simp add: insert_job_duplicate)
  next
    case False
    let ?db1 = "\<lparr>jobs = jobs db @ [job_to_row job],
                 job_skills = job_skills db
                   @ map (\<lambda>s. (job_id job, lower s)) (skills job)\<rparr>"
    have present: "job_id job \<in> set (map r_id (jobs ?db1))"
      by (simp add: job_to_row_def)
    from insert_job_duplicate_any_fault [OF present, of fault]
      insert_job_duplicate [OF present, of None] False
    show ?thesis
      by (simp add: insert_job_new)
  qed
  show "insert_job fault db job = Inl SqliteError
       \<or> insert_job fault db job = Inr (False, db)
       \<or> (job_id job \<notin> set (map r_id (jobs db))
           \<and> insert_job fault db job =
               Inr (True, \<lparr>jobs = jobs db @ [job_to_row job],
                           job_skills = job_skills db
                             @ map (\<lambda>s. (job_id job, lower s)) (skills job)\<rparr>))"
    by (rule insert_job_outcomes)
qed

theorem insert_job_idempotent_witness:
  "insert_job None init_db acme_job = Inr (True, acme_db)
   \<and> jobs acme_db = [job_to_row acme_job]
   \<and> job_skills acme_db = [(''0123456789abcdef'', ''python''), (''0123456789abcdef'', ''sql'')]
   \<and> insert_job None acme_db acme_job = Inr (False, acme_db)
   \<and> insert_job (Some (CallFails 0)) acme_db acme_job = Inr (False, acme_db)"
proof -
  have first: "insert_job None init_db acme_job = Inr (True, acme_db)"
    by (rule acme_db_inserted)
  note c1 = insert_job_idempotent [of init_db acme_job "Some (CallFails 0)", THEN conjunct2,
              THEN conjunct1, unfolded first]
  then have "insert_job None acme_db acme_job = Inr (False, acme_db)"
    by simp
  moreover have "insert_job (Some (CallFails 0)) acme_db acme_job = Inr (False, acme_db)"
    by (simp add: insert_job_def get_connection_def insert_job_try_def)
  ultimately show ?thesis using first
    by (simp add: acme_db_def)
qed

text \<open>
  Claim C9, as the code has it. When a statement inside the \<^verbatim>\<open>try\<close> block of
  \<^verbatim>\<open>insert_job\<close> (the insert of the row, the insert of a skill row, or the commit) raises
  \<^verbatim>\<open>sqlite3.Error\<close>, the method does not pass the error on: it returns \<^verbatim>\<open>False\<close> with the
  store unchanged. Inserting a posting whose id is already stored gives the very same
  outcome, so the result does not tell a duplicate from a write failure. An error
  raised while the connection is opened is not handled and reaches the caller.
\<close>

theorem insert_job_error_reported_as_not_inserted:
  "(insert_job_try fault db job = Inl e \<longrightarrow> insert_job fault db job = Inr (False, db))
   \<and> (job_id job \<in> set (map r_id (jobs db)) \<longrightarrow> insert_job None db job = Inr (False, db))
   \<and> insert_job (Some ConnectFails) db job = Inl SqliteError"
proof (intro conjI impI)
  assume err: "insert_job_try fault db job = Inl e"
  from insert_job_try_error_is_call_fault [OF this] have "fault \<noteq> Some ConnectFails"
    by auto
  with err show "insert_job fault db job = Inr (False, db)"
    by (simp add: insert_job_connected)
next
  assume "job_id job \<in> set (map r_id (jobs db))"
  then show "insert_job None db job = Inr (False, db)"
    by (simp add: insert_job_duplicate)
next
  show "insert_job (Some ConnectFails) db job = Inl SqliteError"
    by (rule insert_job_connect_fails)
qed

theorem insert_job_error_reported_as_not_inserted_witness:
  "insert_job_try (Some (CallFails 2)) init_db acme_job = Inl SqliteError
   \<and> insert_job (Some (CallFails 2)) init_db acme_job = Inr (False, init_db)
   \<and> job_id acme_job \<in> set (map r_id (jobs acme_db))
   \<and> insert_job None acme_db acme_job = Inr (False, acme_db)"
proof -
  have err: "insert_job_try (Some (CallFails 2)) init_db acme_job = Inl SqliteError"
    by (simp add: insert_job_try_def insert_or_ignore_def init_db_def acme_job_def job_to_row_def)
  have dup: "job_id acme_job \<in> set (map r_id (jobs acme_db))"
    by (simp add: acme_db_def job_to_row_def acme_job_def)
  from insert_job_error_reported_as_not_inserted
         [of "Some (CallFails 2)" init_db acme_job SqliteError]
    insert_job_error_reported_as_not_inserted [of None acme_db acme_job SqliteError] err dup
  show ?thesis by simp
qed

text \<open>
  Claim C9 as stated does not hold for every storage-layer error: when opening the
  connection fails, \<^verbatim>\<open>insert_job\<close> returns nothing and the error reaches the caller.
\<close>

theorem insert_job_connect_error_counterexample:
  "insert_job (Some ConnectFails) init_db acme_job = Inl SqliteError"
  by (simp add: insert_job_def get_connection_def)

subsection \<open>Reading postings back\<close>

lemma fromisoformat_isoformat: "fromisoformat (isoformat d) = d"
  by (cases d) (simp add: fromisoformat_def isoformat_def)

lemma from_dict_to_dict:
  "from_dict md5_hexdigest uuid (to_dict job) =
     job\<lparr>job_id := take 16 (md5_hexdigest (title job @ company job @ location job @ uuid))\<rparr>"
  by (cases job)
     (simp add: from_dict_def to_dict_def post_init_def parse_date_def fromisoformat_isoformat
        split: option.split)

lemma from_dict_ignores_id:
  "from_dict md5_hexdigest uuid (data\<lparr>d_id := x\<rparr>) = from_dict md5_hexdigest uuid data"
  by (simp add: from_dict_def)

lemma row_to_job_job_to_row:
  "row_to_job md5_hexdigest uuid (job_to_row job) =
     job\<lparr>job_id := take 16 (md5_hexdigest (title job @ company job @ location job @ uuid))\<rparr>"
  by (cases job)
     (simp add: row_to_job_def job_to_row_def post_init_def fromisoformat_isoformat
        option.map_comp comp_def option.map_ident)

lemma row_to_job_ignores_id:
  "row_to_job md5_hexdigest uuid (row\<lparr>r_id := x\<rparr>) = row_to_job md5_hexdigest uuid row"
  by (simp add: row_to_job_def)

lemma find_last_new:
  "jid \<notin> set (map r_id rows) \<Longrightarrow> r_id row = jid \<Longrightarrow>
   find (\<lambda>r. r_id r = jid) (rows @ [row]) = Some row"
  by (induction rows) auto

lemma r_id_job_to_row: "r_id (job_to_row job) = job_id job"
  by (simp add: job_to_row_def)

lemma get_job_after_insert:
  assumes new: "job_id job \<notin> set (map r_id (jobs db))"
  shows "\<exists>db'. insert_job None db job = Inr (True, db')
           \<and> get_job md5_hexdigest uuid db' (job_id job) =
               Some (job\<lparr>job_id :=
                       take 16 (md5_hexdigest (title job @ company job @ location job @ uuid))\<rparr>)"
proof -
  have "find (\<lambda>row. r_id row = job_id job) (jobs db @ [job_to_row job]) = Some (job_to_row job)"
    using new by (intro find_last_new r_id_job_to_row)
  then show ?thesis
    by (simp add: insert_job_new [OF new] get_job_def row_to_job_job_to_row)
qed

text \<open>
  Claim C10. \<^verbatim>\<open>from_dict\<close> and \<^verbatim>\<open>_row_to_job\<close> ignore the id they are given and build the
  posting through the constructor, which assigns the first 16 digits of the digest of
  title, company, location and a fresh uuid. Converting a posting to its dictionary, or
  to its table row, and back gives the posting with every field as before except the
  id; so \<^verbatim>\<open>get_job\<close>, asked for the id under which a posting was stored, returns the
  posting under the regenerated id.
\<close>

theorem reconstruction_regenerates_id:
  "from_dict md5_hexdigest uuid (to_dict job) =
     job\<lparr>job_id := take 16 (md5_hexdigest (title job @ company job @ location job @ uuid))\<rparr>
   \<and> from_dict md5_hexdigest uuid (data\<lparr>d_id := x\<rparr>) = from_dict md5_hexdigest uuid data
   \<and> row_to_job md5_hexdigest uuid (job_to_row job) =
       job\<lparr>job_id := take 16 (md5_hexdigest (title job @ company job @ location job @ uuid))\<rparr>
   \<and> row_to_job md5_hexdigest uuid (row\<lparr>r_id := y\<rparr>) = row_to_job md5_hexdigest uuid row
   \<and> (job_id job \<notin> set (map r_id (jobs db)) \<longrightarrow>
        (\<exists>db'. insert_job None db job = Inr (True, db')
           \<and> get_job md5_hexdigest uuid db' (job_id job) =
               Some (job\<lparr>job_id :=
                       take 16 (md5_hexdigest
                                  (title job @ company job @ location job @ uuid))\<rparr>)))"
  by (intro conjI impI from_dict_to_dict from_dict_ignores_id row_to_job_job_to_row
        row_to_job_ignores_id get_job_after_insert)

theorem reconstruction_regenerates_id_witness:
  "job_id acme_job \<notin> set (map r_id (jobs init_db))
   \<and> insert_job None init_db acme_job = Inr (True, acme_db)
   \<and> map_option job_id (get_job example_md5 ''u'' acme_db (job_id acme_job))
       = Some ''uXT ,nitsuAproC ''
   \<and> job_id acme_job = ''0123456789abcdef''"
proof -
  have new: "job_id acme_job \<notin> set (map r_id (jobs init_db))"
    by (simp add: init_db_def)
  from reconstruction_regenerates_id [of example_md5 "''u''" acme_job _ _ _ _ init_db] new
  have "get_job example_md5 ''u'' acme_db (job_id acme_job) =
          Some (acme_job\<lparr>job_id :=
                  take 16 (example_md5 (title acme_job @ company acme_job @ location acme_job @ ''u''))\<rparr>)"
    by (simp add: acme_db_inserted)
  then have "map_option job_id (get_job example_md5 ''u'' acme_db (job_id acme_job))
               = Some ''uXT ,nitsuAproC ''"
    by (simp add: acme_job_def example_md5_def)
  moreover have "job_id acme_job = ''0123456789abcdef''"
    by (simp add: acme_job_def)
  ultimately show ?thesis using new acme_db_inserted
    by simp
qed

subsection \<open>Searching\<close>

lemma like_percent:
  "like (CHR ''%'' # ps) s \<longleftrightarrow> (\<exists>k \<le> length s. like ps (drop k s))"
proof (induction s)
  case Nil
  show ?case by simp
next
  case (Cons c cs)
  have "(\<exists>k \<le> length (c # cs). like ps (drop k (c # cs))) \<longleftrightarrow>
        like ps (c # cs) \<or> (\<exists>k \<le> length cs. like ps (drop k cs))"
  proof
    assume "\<exists>k \<le> length (c # cs). like ps (drop k (c # cs))"
    then obtain k where k: "k \<le> length (c # cs)" "like ps (drop k (c # cs))" by blast
    show "like ps (c # cs) \<or> (\<exists>k \<le> length cs. like ps (drop k cs))"
    proof (cases k)
      case 0
      with k show ?thesis by simp
    next
      case (Suc j)
      with k show ?thesis by auto
    qed
  next
    assume "like ps (c # cs) \<or> (\<exists>k \<le> length cs. like ps (drop k cs))"
    then show "\<exists>k \<le> length (c # cs). like ps (drop k (c # cs))"
    proof
      assume "like ps (c # cs)"
      then show ?thesis by (intro exI [of _ 0]) simp
    next
      assume "\<exists>k \<le> length cs. like ps (drop k cs)"
      then obtain k where "k \<le> length cs" "like ps (drop k cs)" by blast
      then show ?thesis by (intro exI [of _ "Suc k"]) simp
    qed
  qed
  with Cons.IH show ?case by simp
qed

lemma like_only_percent: "like [CHR ''%''] s"
  by (simp add: like_percent) (rule exI [of _ "length s"], simp)

lemma like_literal:
  "\<not> has_wildcard ps \<Longrightarrow> like (ps @ [CHR ''%'']) s \<longleftrightarrow> prefix (lower ps) (lower s)"
proof (induction ps arbitrary: s)
  case Nil
  show ?case by (simp add: like_only_percent lower_def)
next
  case (Cons p ps)
  from Cons.prems have p: "p \<noteq> CHR ''%''" "p \<noteq> CHR ''_''" and ps: "\<not> has_wildcard ps"
    by (auto simp: has_wildcard_def)
  show ?case
  proof (cases s)
    case Nil
    with p show ?thesis by (simp add: lower_def)
  next
    case (Cons c cs)
    with p Cons.IH [OF ps, of cs] show ?thesis by (auto simp: lower_def)
  qed
qed

lemma sublist_drop: "sublist xs ys \<longleftrightarrow> (\<exists>k \<le> length ys. prefix xs (drop k ys))"
proof
  assume "sublist xs ys"
  then obtain ps ss where "ys = ps @ xs @ ss" by (auto simp: sublist_def)
  then show "\<exists>k \<le> length ys. prefix xs (drop k ys)"
    by (intro exI [of _ "length ps"]) simp
next
  assume "\<exists>k \<le> length ys. prefix xs (drop k ys)"
  then obtain k zs where "drop k ys = xs @ zs" by (auto simp: prefix_def)
  then have "ys = take k ys @ xs @ zs" by (metis append_take_drop_id)
  then show "sublist xs ys" unfolding sublist_def by blast
qed

lemma like_anywhere_literal:
  assumes "\<not> has_wildcard text"
  shows "like_anywhere text column \<longleftrightarrow> contains (lower text) (lower column)"
proof -
  have "like_anywhere text column \<longleftrightarrow>
        (\<exists>k \<le> length column. prefix (lower text) (lower (drop k column)))"
    by (simp add: like_anywhere_def like_percent like_literal [OF assms])
  also have "\<dots> \<longleftrightarrow> (\<exists>k \<le> length (lower column). prefix (lower text) (drop k (lower column)))"
    by (simp add: lower_def drop_map)
  finally show ?thesis by (simp add: contains_def sublist_drop)
qed


lemma select_jobs_sound:
  "row \<in> set (select_jobs conditions limit db) \<Longrightarrow>
   row \<in> set (jobs db) \<and> list_all (\<lambda>cond. cond row) conditions"
  by (auto simp: select_jobs_def sql_limit_def order_by_scraped_at_desc_def
        dest: in_set_takeD split: if_splits)

lemma length_select_jobs:
  "0 \<le> limit \<Longrightarrow> length (select_jobs conditions limit db) \<le> nat limit"
  by (simp add: select_jobs_def sql_limit_def)

lemma search_jobs_post_filter:
  "search_jobs md5_hexdigest uuid4 db query company_arg location_arg skills_arg
       experience_level_arg remote_only min_salary limit =
     (case skills_arg of
        None \<Rightarrow> search_jobs md5_hexdigest uuid4 db query company_arg location_arg None
                  experience_level_arg remote_only min_salary limit
      | Some sk \<Rightarrow>
          if sk = []
          then search_jobs md5_hexdigest uuid4 db query company_arg location_arg None
                 experience_level_arg remote_only min_salary limit
          else filter (has_any_skill (map lower sk))
                 (search_jobs md5_hexdigest uuid4 db query company_arg location_arg None
                    experience_level_arg remote_only min_salary limit))"
  by (simp add: search_jobs_def Let_def split: option.split)

lemma length_search_jobs_unfiltered:
  "length (search_jobs md5_hexdigest uuid4 db query company_arg location_arg None
             experience_level_arg remote_only min_salary limit) =
     length (select_jobs (build_conditions query company_arg location_arg experience_level_arg
                            remote_only min_salary) limit db)"
  by (simp add: search_jobs_def Let_def)

lemma length_search_jobs:
  "0 \<le> limit \<Longrightarrow>
   length (search_jobs md5_hexdigest uuid4 db query company_arg location_arg skills_arg
             experience_level_arg remote_only min_salary limit) \<le> nat limit"
proof -
  assume limit: "0 \<le> limit"
  let ?all = "search_jobs md5_hexdigest uuid4 db query company_arg location_arg None
                experience_level_arg remote_only min_salary limit"
  have "length ?all \<le> nat limit"
    using length_select_jobs [OF limit] by (simp add: length_search_jobs_unfiltered)
  then show ?thesis
    by (subst search_jobs_post_filter)
       (auto split: option.split intro: le_trans [OF length_filter_le])
qed

lemma in_search_jobs:
  assumes "job \<in> set (search_jobs md5_hexdigest uuid4 db query company_arg location_arg skills_arg
                         experience_level_arg remote_only min_salary limit)"
  shows "\<exists>i row. row \<in> set (jobs db)
           \<and> list_all (\<lambda>cond. cond row)
                (build_conditions query company_arg location_arg experience_level_arg
                   remote_only min_salary)
           \<and> job = row_to_job md5_hexdigest (uuid4 i) row
           \<and> (\<forall>sk. skills_arg = Some sk \<and> sk \<noteq> [] \<longrightarrow> has_any_skill (map lower sk) job)"
proof -
  let ?conds = "build_conditions query company_arg location_arg experience_level_arg
                  remote_only min_salary"
  let ?found = "map (\<lambda>(i, row). row_to_job md5_hexdigest (uuid4 i) row)
                  (enumerate 0 (select_jobs ?conds limit db))"
  from assms have "job \<in> set ?found"
    and sk: "\<forall>sk. skills_arg = Some sk \<and> sk \<noteq> [] \<longrightarrow> has_any_skill (map lower sk) job"
    by (auto simp: search_jobs_def Let_def split: option.splits if_splits)
  then obtain i row where "(i, row) \<in> set (enumerate 0 (select_jobs ?conds limit db))"
    and job: "job = row_to_job md5_hexdigest (uuid4 i) row"
    by auto
  then have "row \<in> set (select_jobs ?conds limit db)"
    by (auto simp: in_set_enumerate_eq)
  from select_jobs_sound [OF this] job sk show ?thesis by blast
qed

lemma row_to_job_fields:
  "title (row_to_job md5_hexdigest uuid row) = r_title row"
  "company (row_to_job md5_hexdigest uuid row) = r_company row"
  "location (row_to_job md5_hexdigest uuid row) = r_location row"
  "description (row_to_job md5_hexdigest uuid row) = r_description row"
  "experience_level (row_to_job md5_hexdigest uuid row) = r_experience_level row"
  "salary_min (row_to_job md5_hexdigest uuid row) = r_salary_min row"
  "remote (row_to_job md5_hexdigest uuid row) = (r_remote row \<noteq> 0)"
  by (simp_all add: row_to_job_def post_init_def)

lemma build_conditions_hold:
  assumes "list_all (\<lambda>cond. cond row)
             (build_conditions query company_arg location_arg experience_level_arg
                remote_only min_salary)"
  shows "(\<forall>q. query = Some q \<and> q \<noteq> [] \<longrightarrow>
            like_anywhere q (r_title row) \<or> like_anywhere q (r_description row)
            \<or> like_anywhere q (r_company row))"
    and "(\<forall>c. company_arg = Some c \<and> c \<noteq> [] \<longrightarrow> like_anywhere c (r_company row))"
    and "(\<forall>l. location_arg = Some l \<and> l \<noteq> [] \<longrightarrow> like_anywhere l (r_location row))"
    and "(\<forall>e. experience_level_arg = Some e \<and> e \<noteq> [] \<longrightarrow> r_experience_level row = e)"
    and "remote_only \<longrightarrow> r_remote row = 1"
    and "(\<forall>m. min_salary = Some m \<and> m \<noteq> 0 \<longrightarrow> (\<exists>s. r_salary_min row = Some s \<and> m \<le> s))"
  using assms
  by (auto simp: build_conditions_def split: option.splits if_splits)


text \<open>
  Claim C2, as the code has it. Every posting returned by \<^verbatim>\<open>search_jobs\<close> satisfies all the
  filters that were supplied: the text filters \<^verbatim>\<open>query\<close>, \<^verbatim>\<open>company\<close> and \<^verbatim>\<open>location\<close> as
  the SQL pattern \<^verbatim>\<open>%text%\<close>, the experience level by equality, \<^verbatim>\<open>remote_only\<close> by
  \<^verbatim>\<open>remote\<close> being true, the salary floor by a \<^verbatim>\<open>salary_min\<close> that is present and not
  below it, and the skills filter by having one of the requested skills up to case.
  The pattern \<^verbatim>\<open>%text%\<close> is containment of the text up to ASCII case when the text has
  neither \<^verbatim>\<open>%\<close> nor \<^verbatim>\<open>_\<close>; these two characters act as wildcards. For \<^verbatim>\<open>limit \<ge> 0\<close> at
  most \<^verbatim>\<open>limit\<close> postings are returned. The limit is applied to the rows before the
  skills filter: the result with a skills filter is the result without it, filtered,
  and so can be shorter than \<^verbatim>\<open>limit\<close>.
\<close>

theorem search_jobs_conjunctive:
  "(\<forall>job \<in> set (search_jobs md5_hexdigest uuid4 db query company_arg location_arg skills_arg
                     experience_level_arg remote_only min_salary limit).
      (\<forall>q. query = Some q \<and> q \<noteq> [] \<longrightarrow>
         like_anywhere q (title job) \<or> like_anywhere q (description job)
         \<or> like_anywhere q (company job))
      \<and> (\<forall>c. company_arg = Some c \<and> c \<noteq> [] \<longrightarrow> like_anywhere c (company job))
      \<and> (\<forall>l. location_arg = Some l \<and> l \<noteq> [] \<longrightarrow> like_anywhere l (location job))
      \<and> (\<forall>e. experience_level_arg = Some e \<and> e \<noteq> [] \<longrightarrow> experience_level job = e)
      \<and> (remote_only \<longrightarrow> remote job)
      \<and> (\<forall>m. min_salary = Some m \<and> m \<noteq> 0 \<longrightarrow> (\<exists>s. salary_min job = Some s \<and> m \<le> s))
      \<and> (\<forall>sk. skills_arg = Some sk \<and> sk \<noteq> [] \<longrightarrow>
            (\<exists>s \<in> set sk. lower s \<in> set (map lower (skills job)))))
   \<and> (\<forall>text column. \<not> has_wildcard text \<longrightarrow>
          like_anywhere text column = contains (lower text) (lower column))
   \<and> (0 \<le> limit \<longrightarrow>
        length (search_jobs md5_hexdigest uuid4 db query company_arg location_arg skills_arg
                  experience_level_arg remote_only min_salary limit) \<le> nat limit)
   \<and> search_jobs md5_hexdigest uuid4 db query company_arg location_arg skills_arg
         experience_level_arg remote_only min_salary limit =
       (case skills_arg of
          None \<Rightarrow> search_jobs md5_hexdigest uuid4 db query company_arg location_arg None
                    experience_level_arg remote_only min_salary limit
        | Some sk \<Rightarrow>
            if sk = []
            then search_jobs md5_hexdigest uuid4 db query company_arg location_arg None
                   experience_level_arg remote_only min_salary limit
            else filter (has_any_skill (map lower sk))
                   (search_jobs md5_hexdigest uuid4 db query company_arg location_arg None
                      experience_level_arg remote_only min_salary limit))"
proof (intro conjI ballI)
  fix job
  assume "job \<in> set (search_jobs md5_hexdigest uuid4 db query company_arg location_arg skills_arg
                        experience_level_arg remote_only min_salary limit)"
  from in_search_jobs [OF this]
  obtain i row where
    conds: "list_all (\<lambda>cond. cond row)
              (build_conditions query company_arg location_arg experience_level_arg
                 remote_only min_salary)"
    and job: "job = row_to_job md5_hexdigest (uuid4 i) row"
    and sk: "\<forall>sk. skills_arg = Some sk \<and> sk \<noteq> [] \<longrightarrow> has_any_skill (map lower sk) job"
    by blast
  note holds = build_conditions_hold [OF conds]
  show "\<forall>q. query = Some q \<and> q \<noteq> [] \<longrightarrow>
          like_anywhere q (title job) \<or> like_anywhere q (description job)
          \<or> like_anywhere q (company job)"
    using holds(1) by (simp add: job row_to_job_fields)
  show "\<forall>c. company_arg = Some c \<and> c \<noteq> [] \<longrightarrow> like_anywhere c (company job)"
    using holds(2) by (simp add: job row_to_job_fields)
  show "\<forall>l. location_arg = Some l \<and> l \<noteq> [] \<longrightarrow> like_anywhere l (location job)"
    using holds(3) by (simp add: job row_to_job_fields)
  show "\<forall>e. experience_level_arg = Some e \<and> e \<noteq> [] \<longrightarrow> experience_level job = e"
    using holds(4) by (simp add: job row_to_job_fields)
  show "remote_only \<longrightarrow> remote job"
    using holds(5) by (simp add: job row_to_job_fields)
  show "\<forall>m. min_salary = Some m \<and> m \<noteq> 0 \<longrightarrow> (\<exists>s. salary_min job = Some s \<and> m \<le> s)"
    using holds(6) by (simp add: job row_to_job_fields)
  show "\<forall>sk. skills_arg = Some sk \<and> sk \<noteq> [] \<longrightarrow>
          (\<exists>s \<in> set sk. lower s \<in> set (map lower (skills job)))"
    using sk by (auto simp: has_any_skill_def list_ex_iff)
next
  show "\<forall>text column. \<not> has_wildcard text \<longrightarrow>
          like_anywhere text column = contains (lower text) (lower column)"
    by (simp add: like_anywhere_literal)
next
  show "0 \<le> limit \<longrightarrow>
        length (search_jobs md5_hexdigest uuid4 db query company_arg location_arg skills_arg
                  experience_level_arg remote_only min_salary limit) \<le> nat limit"
    by (simp add: length_search_jobs)
next
  show "search_jobs md5_hexdigest uuid4 db query company_arg location_arg skills_arg
         experience_level_arg remote_only min_salary limit =
       (case skills_arg of
          None \<Rightarrow> search_jobs md5_hexdigest uuid4 db query company_arg location_arg None
                    experience_level_arg remote_only min_salary limit
        | Some sk \<Rightarrow>
            if sk = []
            then search_jobs md5_hexdigest uuid4 db query company_arg location_arg None
                   experience_level_arg remote_only min_salary limit
            else filter (has_any_skill (map lower sk))
                   (search_jobs md5_hexdigest uuid4 db query company_arg location_arg None
                      experience_level_arg remote_only min_salary limit))"
    by (rule search_jobs_post_filter)
qed

lemma search_jobs_example:
  "map title (search_jobs example_md5 example_uuid4 two_jobs_db None (Some ''ACME'') None
                (Some [''PYTHON'']) None True None 5) = [''Senior Data Engineer'']"
  unfolding two_jobs_db_def by code_simp

lemma search_jobs_example_limit_first:
  "map title (search_jobs example_md5 example_uuid4 two_jobs_db None None None
                None None False None 1) = [''ML Engineer'']
   \<and> search_jobs example_md5 example_uuid4 two_jobs_db None None None
         (Some [''sql'']) None False None 1 = []
   \<and> map title (search_jobs example_md5 example_uuid4 two_jobs_db None None None
                   (Some [''sql'']) None False None 2) = [''Senior Data Engineer'']"
  unfolding two_jobs_db_def by code_simp

theorem search_jobs_conjunctive_witness:
  "map title (search_jobs example_md5 example_uuid4 two_jobs_db None (Some ''ACME'') None
                (Some [''PYTHON'']) None True None 5) = [''Senior Data Engineer'']
   \<and> \<not> has_wildcard ''ACME''
   \<and> list_all (\<lambda>job. contains (lower ''ACME'') (lower (company job)) \<and> remote job
                  \<and> lower ''PYTHON'' \<in> set (map lower (skills job)))
        (search_jobs example_md5 example_uuid4 two_jobs_db None (Some ''ACME'') None
           (Some [''PYTHON'']) None True None 5)
   \<and> length (search_jobs example_md5 example_uuid4 two_jobs_db None (Some ''ACME'') None
                (Some [''PYTHON'']) None True None 5) \<le> 5"
proof -
  let ?res = "search_jobs example_md5 example_uuid4 two_jobs_db None (Some ''ACME'') None
                (Some [''PYTHON'']) None True None 5"
  note facts = search_jobs_conjunctive [of example_md5 example_uuid4 two_jobs_db None
                  "Some ''ACME''" None "Some [''PYTHON'']" None True None 5]
  have lit: "\<not> has_wildcard ''ACME''"
    by (simp add: has_wildcard_def)
  from facts [THEN conjunct1] have each: "\<forall>job \<in> set ?res.
      like_anywhere ''ACME'' (company job) \<and> remote job
      \<and> lower ''PYTHON'' \<in> set (map lower (skills job))"
    by simp
  from facts [THEN conjunct2, THEN conjunct1] lit
  have "like_anywhere ''ACME'' column = contains (lower ''ACME'') (lower column)" for column
    by blast
  with each have "\<forall>job \<in> set ?res.
      contains (lower ''ACME'') (lower (company job)) \<and> remote job
      \<and> lower ''PYTHON'' \<in> set (map lower (skills job))"
    by simp
  moreover from facts [THEN conjunct2, THEN conjunct2, THEN conjunct1] have "length ?res \<le> 5"
    by simp
  ultimately show ?thesis
    using lit by (simp add: list_all_iff search_jobs_example)
qed

text \<open>
  Claim C2 as stated does not hold: the company filter \<^verbatim>\<open>a_me\<close> returns the posting of
  \<^verbatim>\<open>Acme Corp\<close>, whose company does not contain \<^verbatim>\<open>a_me\<close> in any case, and \<^verbatim>\<open>limit = -1\<close>
  returns both stored postings.
\<close>

theorem search_jobs_wildcard_counterexample:
  "map company (search_jobs example_md5 example_uuid4 two_jobs_db None (Some ''a_me'') None
                  None None True None 10) = [''Acme Corp'']
   \<and> \<not> contains (lower ''a_me'') (lower ''Acme Corp'')
   \<and> length (search_jobs example_md5 example_uuid4 two_jobs_db None None None
                None None False None (- 1)) = 2"
  unfolding two_jobs_db_def by code_simp

section \<open>Results on the semantic index\<close>

subsection \<open>Search\<close>

lemma round_half_even_bounds: "x - 1/2 \<le> of_int (round_half_even x) \<and> of_int (round_half_even x) \<le> x + 1/2"
  unfolding round_half_even_def Let_def by (auto; linarith)

lemma round_half_even_nonneg: "0 \<le> x \<Longrightarrow> 0 \<le> round_half_even x"
proof -
  assume "0 \<le> x"
  with round_half_even_bounds [of x] have "(- 1 :: real) < of_int (round_half_even x)"
    by linarith
  then have "- 1 < round_half_even x" by linarith
  then show ?thesis by simp
qed

lemma round_half_even_le: "x \<le> of_int k \<Longrightarrow> round_half_even x \<le> k"
proof -
  assume "x \<le> of_int k"
  with round_half_even_bounds [of x] have "of_int (round_half_even x) < (of_int (k + 1) :: real)"
    by simp
  then have "round_half_even x < k + 1" by (simp only: of_int_less_iff)
  then show ?thesis by simp
qed

lemma py_round_nonneg: "0 \<le> x \<Longrightarrow> 0 \<le> py_round n x"
  by (simp add: py_round_def round_half_even_nonneg)

lemma py_round_le_1: "x \<le> 1 \<Longrightarrow> py_round n x \<le> 1"
proof -
  assume "x \<le> 1"
  then have "x * 10 ^ n \<le> of_int (10 ^ n)" by simp
  then have "round_half_even (x * 10 ^ n) \<le> 10 ^ n" by (rule round_half_even_le)
  then have "(of_int (round_half_even (x * 10 ^ n)) :: real) \<le> 10 ^ n"
    by (metis of_int_le_iff of_int_numeral of_int_power)
  then show ?thesis by (simp add: py_round_def divide_le_eq_1)
qed

lemma set_slice_to: "set (slice_to n xs) \<subseteq> set xs"
  by (auto simp: slice_to_def dest: in_set_takeD)

lemma length_slice_to: "0 \<le> n \<Longrightarrow> length (slice_to n xs) \<le> nat n"
  by (simp add: slice_to_def)

lemma process_results_sound:
  "r \<in> set (process_results min_salary hs) \<Longrightarrow>
   \<exists>h \<in> set hs. r = \<lparr>sr_document = h_document h, sr_metadata = h_metadata h,
            similarity_score = py_round 3 (max 0 (1 - h_distance h)), sr_id = h_id h\<rparr>
      \<and> (\<forall>m. min_salary = Some m \<longrightarrow> m \<noteq> 0 \<longrightarrow>
            \<not> (case m_salary_min (h_metadata h) of None \<Rightarrow> 0 | Some s \<Rightarrow> s) < m)"
  by (induction hs) (auto split: if_splits option.splits)



text \<open>
  Claim C3. With a salary floor \<open>m > 0\<close> (the claim's 100000 in particular) every result
  of \<^verbatim>\<open>search\<close> carries a metadata \<^verbatim>\<open>salary_min\<close> that is present and at least \<open>m\<close>. The
  floor is applied by the caller to the \<^verbatim>\<open>2 * n_results\<close> candidates requested from the
  index, and the list that passes is cut to its first \<^verbatim>\<open>n_results\<close> entries, so at most
  \<^verbatim>\<open>n_results\<close> results are returned for \<^verbatim>\<open>n_results \<ge> 0\<close>.
\<close>

theorem search_salary_floor:
  assumes "0 < m"
  shows "(\<forall>r \<in> set (search collection_query query n e remote_only (Some m)).
            \<exists>s. m_salary_min (sr_metadata r) = Some s \<and> m \<le> s)
         \<and> (0 \<le> n \<longrightarrow> length (search collection_query query n e remote_only (Some m)) \<le> nat n)
         \<and> search collection_query query n e remote_only (Some m) =
             slice_to n (process_results (Some m)
                           (collection_query query (n * 2) (build_where e remote_only)))"
proof (intro conjI ballI impI)
  fix r
  assume "r \<in> set (search collection_query query n e remote_only (Some m))"
  then have "r \<in> set (process_results (Some m)
                        (collection_query query (n * 2) (build_where e remote_only)))"
    using set_slice_to by (fastforce simp: search_def)
  from process_results_sound [OF this] assms
  show "\<exists>s. m_salary_min (sr_metadata r) = Some s \<and> m \<le> s"
    by (auto split: option.splits)
next
  assume "0 \<le> n"
  then show "length (search collection_query query n e remote_only (Some m)) \<le> nat n"
    by (simp add: search_def length_slice_to)
next
  show "search collection_query query n e remote_only (Some m) =
          slice_to n (process_results (Some m)
                        (collection_query query (n * 2) (build_where e remote_only)))"
    by (simp add: search_def)
qed

lemma search_example_floor:
  "search example_query ''data jobs'' 1 None False (Some 100000) =
     [\<lparr>sr_document = ''Job Title: ML Engineer'',
       sr_metadata = \<lparr>m_company = ''Globex'', m_location = ''Seattle, WA'',
                      m_experience_level = ''Senior'', m_remote = ''False'',
                      m_salary_min = Some 120000, m_salary_max = 160000,
                      m_skills = ''python'', m_source = ''sample''\<rparr>,
       similarity_score = 0, sr_id = ''j2''\<rparr>]"
  by (simp add: search_def example_query_def example_hits_def slice_to_def build_where_def
        py_round_def round_half_even_def)

theorem search_salary_floor_witness:
  "(0 :: real) < 100000
   \<and> map sr_id (search example_query ''data jobs'' 1 None False (Some 100000)) = [''j2'']
   \<and> list_all (\<lambda>r. \<exists>s. m_salary_min (sr_metadata r) = Some s \<and> 100000 \<le> s)
        (search example_query ''data jobs'' 1 None False (Some 100000))
   \<and> length (search example_query ''data jobs'' 1 None False (Some 100000)) \<le> 1"
proof -
  have pos: "(0 :: real) < 100000" by simp
  note floor = search_salary_floor [OF pos, of example_query "''data jobs''" 1 None False]
  from floor
  have "\<forall>r \<in> set (search example_query ''data jobs'' 1 None False (Some 100000)).
          \<exists>s. m_salary_min (sr_metadata r) = Some s \<and> 100000 \<le> s"
    by (rule conjunct1)
  moreover from floor
  have "0 \<le> (1 :: int) \<longrightarrow>
          length (search example_query ''data jobs'' 1 None False (Some 100000)) \<le> nat 1"
    by (rule conjunct1 [OF conjunct2])
  ultimately show ?thesis
    by (simp add: list_all_iff search_example_floor)
qed

text \<open>
  Claim C7. Every result of \<^verbatim>\<open>search\<close> comes from a hit of the index and its score is
  \<^verbatim>\<open>max(0, 1 - distance)\<close> of that hit rounded to 3 decimals. The score is never negative,
  also for a distance above 1, and it is at most 1 for the non-negative values that a
  distance takes.
\<close>

theorem search_similarity_score:
  "\<forall>r \<in> set (search collection_query query n e remote_only min_salary).
     \<exists>h \<in> set (collection_query query (n * 2) (build_where e remote_only)).
       sr_id r = h_id h
       \<and> similarity_score r = py_round 3 (max 0 (1 - h_distance h))
       \<and> 0 \<le> similarity_score r
       \<and> (0 \<le> h_distance h \<longrightarrow> similarity_score r \<le> 1)"
proof
  fix r
  assume "r \<in> set (search collection_query query n e remote_only min_salary)"
  then have "r \<in> set (process_results min_salary
                        (collection_query query (n * 2) (build_where e remote_only)))"
    using set_slice_to by (fastforce simp: search_def)
  from process_results_sound [OF this]
  obtain h where h: "h \<in> set (collection_query query (n * 2) (build_where e remote_only))"
    and r: "r = \<lparr>sr_document = h_document h, sr_metadata = h_metadata h,
                  similarity_score = py_round 3 (max 0 (1 - h_distance h)), sr_id = h_id h\<rparr>"
    by blast
  have "0 \<le> py_round 3 (max 0 (1 - h_distance h))"
    by (rule py_round_nonneg) simp
  moreover have "0 \<le> h_distance h \<longrightarrow> py_round 3 (max 0 (1 - h_distance h)) \<le> 1"
    by (auto intro: py_round_le_1)
  ultimately show "\<exists>h \<in> set (collection_query query (n * 2) (build_where e remote_only)).
       sr_id r = h_id h
       \<and> similarity_score r = py_round 3 (max 0 (1 - h_distance h))
       \<and> 0 \<le> similarity_score r
       \<and> (0 \<le> h_distance h \<longrightarrow> similarity_score r \<le> 1)"
    using h r by (intro bexI [of _ h]) simp_all
qed

lemma search_example_scores:
  "map similarity_score (search example_query ''data jobs'' 2 None False None) = [3 / 4, 0]"
  by (simp add: search_def example_query_def example_hits_def slice_to_def build_where_def
        py_round_def round_half_even_def)

theorem search_similarity_score_witness:
  "map similarity_score (search example_query ''data jobs'' 2 None False None) = [3 / 4, 0]
   \<and> map h_distance (example_query ''data jobs'' (2 * 2) None) = [1 / 4, 3 / 2, 2 / 5]
   \<and> list_all (\<lambda>r. 0 \<le> similarity_score r \<and> similarity_score r \<le> 1)
        (search example_query ''data jobs'' 2 None False None)"
proof -
  have d: "map h_distance (example_query ''data jobs'' (2 * 2) None) = [1 / 4, 3 / 2, 2 / 5]"
    by (simp add: example_query_def example_hits_def)
  then have nonneg: "\<forall>h \<in> set (example_query ''data jobs'' (2 * 2) None). 0 \<le> h_distance h"
    by (simp add: example_query_def example_hits_def)
  have w: "build_where None False = None"
    by (simp add: build_where_def)
  from search_similarity_score [of example_query "''data jobs''" 2 None False None] nonneg
  have "\<forall>r \<in> set (search example_query ''data jobs'' 2 None False None).
          0 \<le> similarity_score r \<and> similarity_score r \<le> 1"
    unfolding w by blast
  with d show ?thesis
    by (simp add: list_all_iff search_example_scores)
qed

subsection \<open>Adding documents\<close>

lemma e_id_job_entry: "e_id (job_entry fmt job) = job_id job"
  by (simp add: job_entry_def)

lemma length_fresh_jobs: "length (fresh_jobs E seen xs) \<le> length xs"
  by (induction xs arbitrary: seen) (auto intro: le_SucI)

lemma process_batch_fresh:
  "process_batch fmt E xs (seen, pending, skipped) =
     (seen \<union> set (map job_id (fresh_jobs E seen xs)),
      pending @ map (job_entry fmt) (fresh_jobs E seen xs),
      skipped + (length xs - length (fresh_jobs E seen xs)))"
proof (induction xs arbitrary: seen pending skipped)
  case Nil
  show ?case by simp
next
  case (Cons job rest)
  show ?case
  proof (cases "job_id job \<in> E \<or> job_id job \<in> seen")
    case True
    with Cons.IH [of seen pending "skipped + 1"] length_fresh_jobs [of E seen rest]
    show ?thesis by (simp add: Suc_diff_le)
  next
    case False
    with Cons.IH [of "insert (job_id job) seen" "pending @ [job_entry fmt job]" skipped]
    show ?thesis by simp
  qed
qed

lemma fresh_jobs_append:
  "fresh_jobs E seen (xs @ ys) =
     fresh_jobs E seen xs @ fresh_jobs E (seen \<union> set (map job_id (fresh_jobs E seen xs))) ys"
  by (induction xs arbitrary: seen) auto

lemma fresh_jobs_all_known:
  "\<forall>job \<in> set xs. job_id job \<in> E \<or> job_id job \<in> seen \<Longrightarrow> fresh_jobs E seen xs = []"
  by (induction xs) auto

lemma fresh_jobs_covers:
  "job \<in> set xs \<Longrightarrow>
   job_id job \<in> E \<or> job_id job \<in> seen \<or> job_id job \<in> set (map job_id (fresh_jobs E seen xs))"
  by (induction xs arbitrary: seen) (auto split: if_splits)

lemma add_batches_invariant:
  "fold (add_batch fmt E all_jobs bs) (map (\<lambda>k. k * bs) [0 ..< n]) (collection, {}, 0, 0) =
     (collection @ map (job_entry fmt) (fresh_jobs E {} (take (n * bs) all_jobs)),
      set (map job_id (fresh_jobs E {} (take (n * bs) all_jobs))),
      length (fresh_jobs E {} (take (n * bs) all_jobs)),
      length (take (n * bs) all_jobs) - length (fresh_jobs E {} (take (n * bs) all_jobs)))"
proof (induction n)
  case 0
  show ?case by simp
next
  case (Suc n)
  let ?done = "take (n * bs) all_jobs"
  let ?batch = "take bs (drop (n * bs) all_jobs)"
  let ?F = "fresh_jobs E {} ?done"
  let ?G = "fresh_jobs E (set (map job_id ?F)) ?batch"
  have "Suc n * bs = n * bs + bs" by simp
  then have split: "take (Suc n * bs) all_jobs = ?done @ ?batch"
    by (simp only: take_add)
  have fresh: "fresh_jobs E {} (take (Suc n * bs) all_jobs) = ?F @ ?G"
    unfolding split by (simp add: fresh_jobs_append)
  have len: "length (take (Suc n * bs) all_jobs) = length ?done + length ?batch"
    unfolding split by simp
  have "fold (add_batch fmt E all_jobs bs) (map (\<lambda>k. k * bs) [0 ..< Suc n]) (collection, {}, 0, 0) =
        add_batch fmt E all_jobs bs (n * bs)
          (collection @ map (job_entry fmt) ?F, set (map job_id ?F), length ?F,
           length ?done - length ?F)"
    using Suc.IH by simp
  also have "\<dots> = (collection @ map (job_entry fmt) (?F @ ?G), set (map job_id (?F @ ?G)),
                    length (?F @ ?G), (length ?done + length ?batch) - length (?F @ ?G))"
    using length_fresh_jobs [of E "{}" ?done] length_fresh_jobs [of E "set (map job_id ?F)" ?batch]
    by (simp add: add_batch_def process_batch_fresh Un_commute)
  finally show ?case unfolding fresh len .
qed

lemma batches_cover:
  assumes "0 < bs"
  shows "length xs \<le> ((length xs + bs - 1) div bs) * bs"
proof -
  have "(length xs + bs - 1) div bs * bs = (length xs + bs - 1) - (length xs + bs - 1) mod bs"
    by (simp add: minus_mod_eq_div_mult)
  moreover have "(length xs + bs - 1) mod bs \<le> bs - 1"
    using assms by (simp add: less_Suc_eq_le [symmetric])
  ultimately show ?thesis using assms by linarith
qed

lemma add_jobs_fresh:
  assumes "0 < batch_size"
  shows "add_jobs fmt batch_size collection all_jobs =
     Inr (length (fresh_jobs (set (map e_id collection)) {} all_jobs),
          length all_jobs - length (fresh_jobs (set (map e_id collection)) {} all_jobs),
          collection @ map (job_entry fmt) (fresh_jobs (set (map e_id collection)) {} all_jobs))"
proof -
  from assms have pos: "0 < nat batch_size" by simp
  have all: "take ((length all_jobs + nat batch_size - 1) div nat batch_size * nat batch_size) all_jobs
               = all_jobs"
    using batches_cover [OF pos, of all_jobs] by simp
  from assms show ?thesis
    by (simp add: add_jobs_def batch_starts_def add_batches_invariant all [simplified])
qed


lemma add_jobs_known:
  assumes "0 < batch_size" and "\<forall>job \<in> set all_jobs. job_id job \<in> set (map e_id collection)"
  shows "add_jobs fmt batch_size collection all_jobs = Inr (0, length all_jobs, collection)"
  using assms by (simp add: add_jobs_fresh fresh_jobs_all_known)

text \<open>
  Claim C8. With a positive batch size, \<^verbatim>\<open>add_jobs\<close> adds exactly the postings whose id
  is neither in the set of indexed ids read at the start of the call nor met earlier in
  the call, and counts all others as skipped. A second call with the same postings on
  the resulting collection adds 0 documents, reports every posting as skipped and
  leaves the collection as it is.
\<close>

theorem add_jobs_twice:
  assumes "0 < batch_size" and "0 < batch_size'"
  shows "(let fresh = fresh_jobs (set (map e_id collection)) {} all_jobs;
              collection' = collection @ map (job_entry fmt) fresh
          in add_jobs fmt batch_size collection all_jobs =
               Inr (length fresh, length all_jobs - length fresh, collection')
             \<and> length fresh \<le> length all_jobs
             \<and> add_jobs fmt batch_size' collection' all_jobs =
                 Inr (0, length all_jobs, collection'))"
proof -
  let ?fresh = "fresh_jobs (set (map e_id collection)) {} all_jobs"
  let ?collection' = "collection @ map (job_entry fmt) ?fresh"
  have "\<forall>job \<in> set all_jobs. job_id job \<in> set (map e_id ?collection')"
    using fresh_jobs_covers [of _ all_jobs "set (map e_id collection)" "{}"]
    by (auto simp: e_id_job_entry image_iff)
  then have "add_jobs fmt batch_size' ?collection' all_jobs = Inr (0, length all_jobs, ?collection')"
    using assms(2) by (intro add_jobs_known)
  then show ?thesis
    using add_jobs_fresh [OF assms(1), of fmt collection all_jobs] length_fresh_jobs
    by (simp add: Let_def)
qed

lemma add_jobs_example: "add_jobs example_fmt 1 [] [acme_job, globex_job, acme_job] =
       Inr (2, 1, [job_entry example_fmt acme_job, job_entry example_fmt globex_job])"
  by (simp add: add_jobs_def batch_starts_def add_batch_def acme_job_def globex_job_def job_entry_def upt_rec)

theorem add_jobs_twice_witness:
  "(0 :: int) < 1 \<and> (0 :: int) < 100
   \<and> add_jobs example_fmt 1 [] [acme_job, globex_job, acme_job] =
       Inr (2, 1, [job_entry example_fmt acme_job, job_entry example_fmt globex_job])
   \<and> add_jobs example_fmt 100 [job_entry example_fmt acme_job, job_entry example_fmt globex_job]
         [acme_job, globex_job, acme_job] =
       Inr (0, 3, [job_entry example_fmt acme_job, job_entry example_fmt globex_job])"
proof -
  have ids: "job_id acme_job \<noteq> job_id globex_job"
    by (simp add: acme_job_def globex_job_def)
  then have "fresh_jobs (set (map e_id [])) {} [acme_job, globex_job, acme_job] =
               [acme_job, globex_job]"
    by auto
  with add_jobs_twice [of 1 100 "[]" "[acme_job, globex_job, acme_job]" example_fmt]
  show ?thesis by (simp add: Let_def)
qed

section \<open>Results on the analytics engine\<close>

text \<open>
  Claim C6. The classifier returns the role of the first rule, in the order Data
  Engineer, ML Engineer, AI Engineer, Data Scientist, Backend Engineer, Full Stack
  Engineer, DevOps Engineer, Analytics Engineer, that has a keyword in the lower-cased
  title, and \<^verbatim>\<open>Other\<close> when no rule has one. The title
  \<^verbatim>\<open>Senior ML Engineer / Data Engineer\<close> is classified as \<^verbatim>\<open>Data Engineer\<close>.
\<close>

theorem get_base_role_priority:
  "get_base_role t = first_matching_rule role_rules (lower t)
   \<and> map snd role_rules =
       [''Data Engineer'', ''ML Engineer'', ''AI Engineer'', ''Data Scientist'',
        ''Backend Engineer'', ''Full Stack Engineer'', ''DevOps Engineer'', ''Analytics Engineer'']
   \<and> get_base_role ''Senior ML Engineer / Data Engineer'' = ''Data Engineer''"
proof -
  have "get_base_role ''Senior ML Engineer / Data Engineer'' = ''Data Engineer''"
    by code_simp
  then show ?thesis
    by (simp add: get_base_role_def role_rules_def Let_def)
qed

text \<open>
  Claim C4. On a store without records \<^verbatim>\<open>get_stats\<close> delivers \<^verbatim>\<open>None\<close> for both sums, and
  \<^verbatim>\<open>get_remote_stats\<close> raises \<^verbatim>\<open>TypeError\<close> when it adds them: the guard \<^verbatim>\<open>total > 0\<close> is
  never reached, and no percentage 0 is returned.
\<close>

theorem get_remote_stats_empty_store:
  "get_remote_stats init_db = Inl TypeError"
  by (simp add: get_remote_stats_def get_stats_def init_db_def sql_sum_def)

lemma get_remote_stats_nonempty:
  "jobs db \<noteq> [] \<Longrightarrow> \<exists>st. get_remote_stats db = Inr st"
  by (simp add: get_remote_stats_def get_stats_def sql_sum_def Let_def)

lemma five_python_db_jobs: "jobs five_python_db = map job_to_row five_python_jobs"
  by (simp add: five_python_db_def)

lemma five_python_db_inserted:
  "insert_many no_faults init_db five_python_jobs = Inr (5, 0, five_python_db)"
proof -
  have "lower ''python'' = ''python''"
    by code_simp
  then show ?thesis
    by (simp add: five_python_db_def five_python_jobs_def insert_many_def no_faults_def
          insert_job_new init_db_def python_job_def r_id_job_to_row)
qed

lemma skill_salary_correlation_example:
  "get_skill_salary_correlation example_md5 example_uuid4 salaried_python_db =
     Inr [(''python'', Num 128000)]"
  unfolding get_skill_salary_correlation_def get_jobs_dataframe_def get_all_jobs_def
    search_jobs_def select_jobs_def Let_def salaried_python_db_def salaried_python_jobs_def
    five_python_jobs_def
  by code_simp

lemma length_skill_salary_correlation:
  "skill_salary_correlation df = Inr res \<Longrightarrow> length res \<le> 15"
  by (auto simp: skill_salary_correlation_def split: sum.splits)

text \<open>
  Claim C5. The store holds five postings with the skill \<^verbatim>\<open>python\<close>, four with a salary
  range and one without. In the data frame the missing ceiling is NaN, which the test
  \<^verbatim>\<open>if row['salary_max'] and row['skills']\<close> lets pass, so the posting without a salary
  ceiling contributes as well: \<^verbatim>\<open>python\<close> reaches the threshold of 5 entries and is
  returned, with NaN as its mean, although only 4 postings with a salary ceiling have
  the skill.
\<close>

theorem skill_salary_correlation_counts_missing_salary:
  "get_skill_salary_correlation example_md5 example_uuid4 five_python_db =
     Inr [(''python'', NaN)]
   \<and> map salary_max five_python_jobs =
       [Some 140000, Some 150000, Some 160000, Some 170000, None]
   \<and> map skills five_python_jobs =
       [[''python''], [''python''], [''python''], [''python''], [''python'']]"
proof -
  have "get_skill_salary_correlation example_md5 example_uuid4 five_python_db =
          Inr [(''python'', NaN)]"
    unfolding get_skill_salary_correlation_def get_jobs_dataframe_def get_all_jobs_def
      search_jobs_def select_jobs_def Let_def five_python_db_jobs five_python_jobs_def
    by code_simp
  then show ?thesis
    by (simp add: five_python_jobs_def python_job_def)
qed

end
